theory Spec2Isabelle
  imports Main
begin

section \<open>Python values and the library functions the manager uses\<close>

text \<open>
  The plugin instance manager (\<^verbatim>\<open>plugininstances/services/manager.py\<close>) works on parsed
  JSON: the responses of the remote service, the messages it sends, and the submitted
  parameter values. A dict is an association list in insertion order with distinct keys;
  JSON numbers are the integers (fractional numbers are left out of the model); strings
  are lists of 8-bit characters.
\<close>

datatype json =
    JNull
  | JBool bool
  | JInt int
  | JStr string
  | JList "json list"
  | JDict "(string \<times> json) list"

text \<open>Every \<^verbatim>\<open>raise\<close> the manager can meet is a value.\<close>

datatype error =
    KeyError string
  | TypeError
  | AttributeError
  | UnboundLocalError string
  | FileNotFoundError string
  | RemoteError string

subsection \<open>Strings\<close>

text \<open>\<^verbatim>\<open>str.isspace\<close> on the code points below 256.\<close>

definition isspace :: "char \<Rightarrow> bool" where
  "isspace c = (c \<in> set [CHR 0x09, CHR 0x0A, CHR 0x0B, CHR 0x0C, CHR 0x0D,
                           CHR 0x1C, CHR 0x1D, CHR 0x1E, CHR 0x1F, CHR 0x20,
                           CHR 0x85, CHR 0xA0])"

text \<open>\<^verbatim>\<open>s.split()\<close>: the maximal runs of non-whitespace characters, in order.
  \<open>split_run cur s\<close> scans \<open>s\<close> with the run \<open>cur\<close> read so far.\<close>

fun split_run :: "string \<Rightarrow> string \<Rightarrow> string list" where
  "split_run cur [] = (if cur = [] then [] else [cur])"
| "split_run cur (c # cs) =
     (if isspace c then (if cur = [] then split_run [] cs else cur # split_run [] cs)
      else split_run (cur @ [c]) cs)"

definition split :: "string \<Rightarrow> string list" where
  "split s = split_run [] s"

text \<open>\<^verbatim>\<open>sep.join(parts)\<close>.\<close>

definition join :: "string \<Rightarrow> string list \<Rightarrow> string" where
  "join sep parts =
     concat (case parts of [] \<Rightarrow> [] | p # ps \<Rightarrow> p # map (\<lambda>q. sep @ q) ps)"

text \<open>\<^verbatim>\<open>s.strip()\<close>, \<^verbatim>\<open>s.lstrip(c)\<close> and \<^verbatim>\<open>s.rstrip(c)\<close> for a single character \<open>c\<close>.\<close>

definition strip :: "string \<Rightarrow> string" where
  "strip s = rev (dropWhile isspace (rev (dropWhile isspace s)))"

definition lstrip :: "char \<Rightarrow> string \<Rightarrow> string" where
  "lstrip c s = dropWhile (\<lambda>x. x = c) s"

definition rstrip :: "char \<Rightarrow> string \<Rightarrow> string" where
  "rstrip c s = rev (dropWhile (\<lambda>x. x = c) (rev s))"

text \<open>\<^verbatim>\<open>sub in s\<close> on strings.\<close>

fun str_contains :: "string \<Rightarrow> string \<Rightarrow> bool" where
  "str_contains sub [] = (sub = [])"
| "str_contains sub (c # cs) =
     (take (length sub) (c # cs) = sub \<or> str_contains sub cs)"

subsection \<open>\<^verbatim>\<open>str()\<close> and \<^verbatim>\<open>repr()\<close>\<close>

fun str_nat :: "nat \<Rightarrow> string" where
  "str_nat n =
     (if n < 10 then [''0123456789'' ! n]
      else str_nat (n div 10) @ [''0123456789'' ! (n mod 10)])"

declare str_nat.simps [simp del]

definition str_int :: "int \<Rightarrow> string" where
  "str_int i = (if i < 0 then CHR ''-'' # str_nat (nat (- i)) else str_nat (nat i))"

text \<open>\<^verbatim>\<open>repr\<close> of a string: single quotes unless the string holds a single quote and no
  double quote; the quote and the backslash are escaped, tab, newline and carriage return
  have their letters, and every other non-printable character is \<^verbatim>\<open>\xNN\<close>.\<close>

definition isprintable :: "char \<Rightarrow> bool" where
  "isprintable c =
     (let n = (of_char c :: nat) in (32 \<le> n \<and> n < 127) \<or> (161 \<le> n \<and> n \<noteq> 173))"

definition repr_char :: "char \<Rightarrow> char \<Rightarrow> string" where
  "repr_char q c =
     (if c = q \<or> c = CHR 0x5C then [CHR 0x5C, c]
      else if c = CHR 0x09 then [CHR 0x5C, CHR ''t'']
      else if c = CHR 0x0A then [CHR 0x5C, CHR ''n'']
      else if c = CHR 0x0D then [CHR 0x5C, CHR ''r'']
      else if \<not> isprintable c then
        [CHR 0x5C, CHR ''x'',
         ''0123456789abcdef'' ! ((of_char c :: nat) div 16),
         ''0123456789abcdef'' ! ((of_char c :: nat) mod 16)]
      else [c])"

definition repr_str :: "string \<Rightarrow> string" where
  "repr_str s =
     (let q = (if CHR 0x27 \<in> set s \<and> CHR 0x22 \<notin> set s then CHR 0x22 else CHR 0x27)
      in q # concat (map (repr_char q) s) @ [q])"

fun py_repr :: "json \<Rightarrow> string" where
  "py_repr JNull = ''None''"
| "py_repr (JBool b) = (if b then ''True'' else ''False'')"
| "py_repr (JInt i) = str_int i"
| "py_repr (JStr s) = repr_str s"
| "py_repr (JList xs) = ''['' @ join '', '' (map py_repr xs) @ '']''"
| "py_repr (JDict kvs) =
     ''{'' @ join '', '' (map (\<lambda>(k, v). repr_str k @ '': '' @ py_repr v) kvs) @ ''}''"

text \<open>\<^verbatim>\<open>str(v)\<close>: a string is itself, everything else prints as its \<^verbatim>\<open>repr\<close>.\<close>

definition py_str :: "json \<Rightarrow> string" where
  "py_str v = (case v of JStr s \<Rightarrow> s | _ \<Rightarrow> py_repr v)"

text \<open>Truth value of a Python object in a condition.\<close>

fun truthy :: "json \<Rightarrow> bool" where
  "truthy JNull = False"
| "truthy (JBool b) = b"
| "truthy (JInt i) = (i \<noteq> 0)"
| "truthy (JStr s) = (s \<noteq> [])"
| "truthy (JList xs) = (xs \<noteq> [])"
| "truthy (JDict kvs) = (kvs \<noteq> [])"

subsection \<open>Subscripts\<close>

text \<open>\<^verbatim>\<open>d[k]\<close> with a string key: KeyError on a dict without the key, TypeError on
  anything that is not a dict.\<close>

fun getitem :: "json \<Rightarrow> string \<Rightarrow> error + json" where
  "getitem (JDict kvs) k = (case map_of kvs k of None \<Rightarrow> Inl (KeyError k) | Some v \<Rightarrow> Inr v)"
| "getitem _ k = Inl TypeError"

text \<open>\<^verbatim>\<open>d[k1][k2]...[kn]\<close>, left to right.\<close>

fun getpath :: "json \<Rightarrow> string list \<Rightarrow> error + json" where
  "getpath d [] = Inr d"
| "getpath d (k # ks) = (case getitem d k of Inl e \<Rightarrow> Inl e | Inr v \<Rightarrow> getpath v ks)"

subsection \<open>\<^verbatim>\<open>os.path\<close>\<close>

text \<open>\<^verbatim>\<open>posixpath.join(a, b)\<close> and \<^verbatim>\<open>posixpath.dirname(p)\<close>.\<close>

definition path_join :: "string \<Rightarrow> string \<Rightarrow> string" where
  "path_join a b =
     (if take 1 b = ''/'' then b
      else if a = [] \<or> last a = CHR ''/'' then a @ b
      else a @ ''/'' @ b)"

definition dirname :: "string \<Rightarrow> string" where
  "dirname p =
     (let head = rev (dropWhile (\<lambda>c. c \<noteq> CHR ''/'') (rev p))
      in if head \<noteq> [] \<and> head \<noteq> replicate (length head) CHR ''/''
         then rstrip CHR ''/'' head else head)"


text \<open>\<^verbatim>\<open>s.encode('utf-8')\<close> on code points below 256, and \<^verbatim>\<open>base64.b64encode\<close>. The
  output of the latter is ASCII, so the \<^verbatim>\<open>.decode('ascii')\<close> that follows it in the source
  is the identity.\<close>

definition utf8_encode :: "string \<Rightarrow> string" where
  "utf8_encode s =
     concat (map (\<lambda>c. let n = (of_char c :: nat)
                        in if n < 128 then [c]
                           else [char_of (192 + n div 64), char_of (128 + n mod 64)]) s)"

definition b64 :: "nat \<Rightarrow> char" where
  "b64 n = ''ABCDEFGHIJKLMNOPQRSTUVWXYZabcdefghijklmnopqrstuvwxyz0123456789+/'' ! n"

fun b64encode :: "string \<Rightarrow> string" where
  "b64encode [] = []"
| "b64encode [a] =
     (let x = (of_char a :: nat)
      in [b64 (x div 4), b64 ((x mod 4) * 16), CHR ''='', CHR ''=''])"
| "b64encode [a, b] =
     (let x = (of_char a :: nat); y = (of_char b :: nat)
      in [b64 (x div 4), b64 ((x mod 4) * 16 + y div 16), b64 ((y mod 16) * 4), CHR ''=''])"
| "b64encode (a # b # c # rest) =
     (let x = (of_char a :: nat); y = (of_char b :: nat); z = (of_char c :: nat)
      in [b64 (x div 4), b64 ((x mod 4) * 16 + y div 16),
          b64 ((y mod 16) * 4 + z div 64), b64 (z mod 64)] @ b64encode rest)"

section \<open>The Job record, the plugin descriptor and the collaborators\<close>

text \<open>A row of \<^verbatim>\<open>plugin.parameters.all()\<close>: the fields the manager reads.\<close>

record plugin_parameter =
  db_name :: string
  db_flag :: string
  db_action :: string
  db_type :: string

record plugin =
  meta_type :: string
  selfpath :: string
  selfexec :: string
  execshell :: string
  dock_image :: string
  parameters :: "plugin_parameter list"

text \<open>
  The plugin instance (the Job record). \<open>previous\<close> is the foreign key to the previous
  instance of the pipeline, \<open>None\<close> for a root job. The resource limits other than the
  worker count are kept as the strings \<^verbatim>\<open>str()\<close> gives for them.
\<close>

record plugin_inst =
  inst_id :: int
  previous :: "int option"
  plugin :: plugin
  owner_username :: string
  compute_resource_name :: string
  compute_url :: string
  number_of_workers :: int
  cpu_limit :: string
  memory_limit :: string
  gpu_limit :: string
  status :: string
  summary :: string
  raw :: string
  end_date :: "nat option"

text \<open>
  What the manager does to its collaborators is recorded in a journal, in order: the
  log records, the messages sent to the remote service, the calls of the storage client,
  the assignments to fields of the Job record, \<^verbatim>\<open>save()\<close> and
  \<^verbatim>\<open>register_output_files\<close>.
\<close>

datatype level = INFO | ERROR

datatype swift_op =
    PathExists string
  | ObjExists string
  | UploadObj string
  | Ls string
  | DownloadObj string

datatype event =
    Log level string
  | Sent json
  | Swift swift_op
  | SetAttr string json
  | Save
  | RegisterOutputFiles json

text \<open>
  The state the manager works on: the plugin instance, the objects of the storage
  container (key and content), the local directories and the zip archives on the local
  disk (path, and the entries written so far as name and content), and the journal.
\<close>

record state =
  c_plugin_inst :: plugin_inst
  swift :: "(string \<times> string) list"
  local_dirs :: "string list"
  local_zips :: "(string \<times> (string \<times> string) list) list"
  journal :: "event list"

text \<open>
  What one call of the manager finds around it: the home directory
  (\<^verbatim>\<open>os.path.expanduser("~")\<close>), the clock (\<^verbatim>\<open>timezone.now()\<close>), the answer of the
  remote service to a message (\<open>Inl\<close> when \<^verbatim>\<open>pfurl\<close> or \<^verbatim>\<open>json.loads\<close> raises), the
  storage operations that fail with a \<^verbatim>\<open>ClientException\<close> (and its text), whether
  \<^verbatim>\<open>os.makedirs\<close> fails, the output path of an instance
  (\<^verbatim>\<open>PluginInstance.get_output_path\<close>, defined outside the manager), and the library
  functions \<^verbatim>\<open>json.dumps\<close> (with its \<^verbatim>\<open>indent\<close> and \<^verbatim>\<open>sort_keys\<close>) and \<^verbatim>\<open>zlib.compress\<close>.
\<close>

record env =
  home :: string
  now :: nat
  remote :: "json \<Rightarrow> error + json"
  swift_fails :: "swift_op \<Rightarrow> string option"
  makedirs_fails :: "string option"
  get_output_path :: "int \<Rightarrow> string"
  json_dumps :: "nat option \<Rightarrow> bool \<Rightarrow> json \<Rightarrow> string"
  zlib_compress :: "string \<Rightarrow> string"

definition logf :: "level \<Rightarrow> string \<Rightarrow> state \<Rightarrow> state" where
  "logf l msg s = s\<lparr>journal := journal s @ [Log l msg]\<rparr>"

subsection \<open>The storage client\<close>

text \<open>Storing under a key: the value replaces the one that is there, or is added at the
  end.\<close>

definition put_obj :: "string \<Rightarrow> 'v \<Rightarrow> (string \<times> 'v) list \<Rightarrow> (string \<times> 'v) list" where
  "put_obj k v objs =
     (if k \<in> fst ` set objs then map (\<lambda>(k', v'). if k' = k then (k, v) else (k', v')) objs
      else objs @ [(k, v)])"

definition swift_call :: "env \<Rightarrow> swift_op \<Rightarrow> 'a \<Rightarrow> state \<Rightarrow> (string + 'a) \<times> state" where
  "swift_call env op r s =
     (let s' = s\<lparr>journal := journal s @ [Swift op]\<rparr>
      in case swift_fails env op of Some detail \<Rightarrow> (Inl detail, s') | None \<Rightarrow> (Inr r, s'))"

text \<open>Modelled from the spec: \<^verbatim>\<open>SwiftManager.path_exists\<close> of \<^verbatim>\<open>core/swiftmanager.py\<close>,
  which is not part of the sources at hand. The spec's Blob Store has
  \<^verbatim>\<open>exists(path) -> bool\<close> and may fail with a storage-client error (\<open>Inl\<close>, with the
  text of the exception); a path exists when some object key starts with it.\<close>

definition path_exists :: "env \<Rightarrow> string \<Rightarrow> state \<Rightarrow> (string + bool) \<times> state" where
  "path_exists env path s =
     swift_call env (PathExists path)
       (\<exists>k \<in> fst ` set (swift s). take (length path) k = path) s"

text \<open>Modelled from the spec: \<^verbatim>\<open>SwiftManager.obj_exists\<close>, the Blob Store's
  \<^verbatim>\<open>exists\<close> for one object key.\<close>

definition obj_exists :: "env \<Rightarrow> string \<Rightarrow> state \<Rightarrow> (string + bool) \<times> state" where
  "obj_exists env obj_path s =
     swift_call env (ObjExists obj_path) (obj_path \<in> fst ` set (swift s)) s"

text \<open>Modelled from the spec: \<^verbatim>\<open>SwiftManager.upload_obj\<close>, the Blob Store's
  \<^verbatim>\<open>upload(path, bytes, contentType)\<close>; a failed upload stores nothing.\<close>

definition upload_obj :: "env \<Rightarrow> string \<Rightarrow> string \<Rightarrow> state \<Rightarrow> (string + unit) \<times> state" where
  "upload_obj env obj_path contents s =
     (case swift_call env (UploadObj obj_path) () s of
        (Inl detail, s') \<Rightarrow> (Inl detail, s')
      | (Inr u, s') \<Rightarrow> (Inr (), s'\<lparr>swift := put_obj obj_path contents (swift s')\<rparr>))"

text \<open>Modelled from the spec: \<^verbatim>\<open>SwiftManager.ls\<close>, the Blob Store's
  \<^verbatim>\<open>listByPrefix(prefix) -> sequence of object keys\<close>.\<close>

definition ls :: "env \<Rightarrow> string \<Rightarrow> state \<Rightarrow> (string + string list) \<times> state" where
  "ls env path s =
     swift_call env (Ls path)
       (filter (\<lambda>k. take (length path) k = path) (map fst (swift s))) s"

text \<open>Modelled from the spec: \<^verbatim>\<open>SwiftManager.download_obj\<close>, the Blob Store's
  \<^verbatim>\<open>download(path) -> bytes\<close>; an object that is not there is a storage-client error.\<close>

definition download_obj :: "env \<Rightarrow> string \<Rightarrow> state \<Rightarrow> (string + string) \<times> state" where
  "download_obj env obj_path s =
     (case swift_call env (DownloadObj obj_path) () s of
        (Inl detail, s') \<Rightarrow> (Inl detail, s')
      | (Inr u, s') \<Rightarrow>
          (case map_of (swift s') obj_path of
             None \<Rightarrow> (Inl ''Object GET failed'', s')
           | Some contents \<Rightarrow> (Inr contents, s')))"

section \<open>The plugin instance manager\<close>

text \<open>The fields set by \<^verbatim>\<open>__init__\<close>.\<close>

definition str_app_container_inputdir :: string where
  "str_app_container_inputdir = ''/share/incoming''"

definition str_app_container_outputdir :: string where
  "str_app_container_outputdir = ''/share/outgoing''"

definition str_job_id :: "plugin_inst \<Rightarrow> string" where
  "str_job_id plugin_instance = ''chris-jid-'' @ str_int (inst_id plugin_instance)"

definition data_dir :: "env \<Rightarrow> string" where
  "data_dir env = path_join (home env) ''data''"

subsection \<open>\<^verbatim>\<open>call_app_service\<close>\<close>

text \<open>\<^verbatim>\<open>"Connection refused" in d_response\<close>: a key of a dict, an element of a list, a
  substring of a string, and a TypeError on anything else.\<close>

fun connection_refused :: "json \<Rightarrow> error + bool" where
  "connection_refused (JDict kvs) = Inr (''Connection refused'' \<in> fst ` set kvs)"
| "connection_refused (JList xs) = Inr (JStr ''Connection refused'' \<in> set xs)"
| "connection_refused (JStr r) = Inr (str_contains ''Connection refused'' r)"
| "connection_refused _ = Inl TypeError"

fun isinstance_dict :: "json \<Rightarrow> bool" where
  "isinstance_dict (JDict kvs) = True"
| "isinstance_dict _ = False"

definition call_app_service :: "env \<Rightarrow> json \<Rightarrow> state \<Rightarrow> (error + json) \<times> state" where
  "call_app_service env d_msg s =
     (let remote_url = compute_url (c_plugin_inst s);
          s1 = s\<lparr>journal := journal s @ [Sent d_msg]\<rparr>
      in case remote env d_msg of
           Inl e \<Rightarrow> (Inl e, s1)
         | Inr d_response \<Rightarrow>
             (let str_service = ''pfcon'';
                  s2 = (if isinstance_dict d_response then
                          logf INFO (''response from pfurl(): '' @ json_dumps env (Some 2) False d_response)
                            (logf INFO (''comms were sent to -->'' @ remote_url @ ''<--'')
                              (logf INFO (''looks like we got a successful response from '' @ str_service) s1))
                        else
                          logf INFO (''response from pfurl(): -->'' @ py_str d_response @ ''<--'')
                            (logf INFO (''comms were sent to -->'' @ remote_url @ ''<--'')
                              (logf INFO (''looks like we got an UNSUCCESSFUL response from '' @ str_service) s1)))
              in case connection_refused d_response of
                   Inl e \<Rightarrow> (Inl e, s2)
                 | Inr refused \<Rightarrow>
                     (Inr d_response,
                      if refused then logf ERROR (''fatal error in talking to '' @ str_service) s2
                      else s2)))"

subsection \<open>\<^verbatim>\<open>manage_app_service_fsplugin_inputdir\<close>\<close>

text \<open>The end of the method, from the \<^verbatim>\<open>try\<close> on: the squash file is uploaded unless it is
  there already. A \<^verbatim>\<open>ClientException\<close> of either storage call is logged and the input
  directory stays as it was; the \<^verbatim>\<open>else\<close> of the \<^verbatim>\<open>try\<close> replaces it by the directory
  of the squash file.\<close>

definition squash_inputdir ::
  "env \<Rightarrow> string \<Rightarrow> string \<Rightarrow> string \<Rightarrow> state \<Rightarrow> string \<times> state" where
  "squash_inputdir env str_squashFile str_squashMsg str_inputdir s =
     (case obj_exists env str_squashFile s of
        (Inl detail, s1) \<Rightarrow>
          (str_inputdir, logf ERROR (''Swift storage error, detail: '' @ detail) s1)
      | (Inr exists, s1) \<Rightarrow>
          if \<not> exists then
            (case upload_obj env str_squashFile str_squashMsg s1 of
               (Inl detail, s2) \<Rightarrow>
                 (str_inputdir, logf ERROR (''Swift storage error, detail: '' @ detail) s2)
             | (Inr u, s2) \<Rightarrow> (dirname str_squashFile, s2))
          else (dirname str_squashFile, s1))"

definition manage_app_service_fsplugin_inputdir ::
  "env \<Rightarrow> json \<Rightarrow> state \<Rightarrow> (error + string) \<times> state" where
  "manage_app_service_fsplugin_inputdir env inputdir s =
     (case inputdir of
        JStr i \<Rightarrow>
          (let str_inputdir = lstrip CHR ''.'' (strip i)
           in if str_inputdir \<noteq> [] then
                (case path_exists env str_inputdir s of
                   (Inl detail, s1) \<Rightarrow>
                     (Inr str_inputdir,
                      logf ERROR (''Swift storage error, detail: '' @ detail) s1)
                 | (Inr exists, s1) \<Rightarrow>
                     if exists then (Inr str_inputdir, s1)
                     else
                       (case squash_inputdir env
                               (lstrip CHR ''/''
                                  (path_join (data_dir env)
                                     ''squashInvalidDir/squashInvalidDir.txt''))
                               ''Path specified in object storage does not exist!''
                               str_inputdir s1 of
                          (r, s2) \<Rightarrow> (Inr r, s2)))
              else
                (case squash_inputdir env
                        (lstrip CHR ''/''
                           (path_join (data_dir env) ''squashEmptyDir/squashEmptyDir.txt''))
                        ''Empty input dir.'' str_inputdir s of
                   (r, s2) \<Rightarrow> (Inr r, s2)))
      | _ \<Rightarrow> (Inl AttributeError, s))"

subsection \<open>\<^verbatim>\<open>run_plugin_instance_app\<close>\<close>

text \<open>
  The loop over the submitted parameters carries the argument list and the names of the
  \<^verbatim>\<open>path\<close> and \<^verbatim>\<open>unextpath\<close> parameters. \<open>match_param\<close> is the inner loop over the
  plugin's parameters, which stops at the first one of the submitted name.
\<close>

type_synonym params_acc = "json list \<times> string list \<times> string list"

definition apply_param :: "plugin_parameter \<Rightarrow> string \<Rightarrow> json \<Rightarrow> params_acc \<Rightarrow> params_acc" where
  "apply_param db_param param_name param_value acc =
     (case acc of (app_args, path_param_names, unextpath_param_names) \<Rightarrow>
        (let stored =
               (if db_action db_param = ''store'' then
                  (let unext = (if db_type db_param = ''unextpath''
                                then unextpath_param_names @ [param_name]
                                else unextpath_param_names);
                       paths = (if db_type db_param = ''path''
                                then path_param_names @ [param_name]
                                else path_param_names);
                       value = (if db_type db_param = ''path''
                                  \<or> db_type db_param = ''unextpath''
                                then JStr str_app_container_inputdir else param_value)
                   in (app_args @ [JStr (db_flag db_param), value], paths, unext))
                else acc);
             args1 = (if db_action db_param = ''store_true'' \<and> truthy param_value
                      then fst stored @ [JStr (db_flag db_param)] else fst stored);
             args2 = (if db_action db_param = ''store_false'' \<and> \<not> truthy param_value
                      then args1 @ [JStr (db_flag db_param)] else args1)
         in (args2, snd stored)))"

fun match_param :: "plugin_parameter list \<Rightarrow> string \<Rightarrow> json \<Rightarrow> params_acc \<Rightarrow> params_acc" where
  "match_param [] param_name param_value acc = acc"
| "match_param (db_param # db_parameters) param_name param_value acc =
     (if db_name db_param = param_name then apply_param db_param param_name param_value acc
      else match_param db_parameters param_name param_value acc)"

fun params_loop :: "plugin_parameter list \<Rightarrow> (string \<times> json) list \<Rightarrow> params_acc \<Rightarrow> params_acc" where
  "params_loop db_parameters [] acc = acc"
| "params_loop db_parameters ((param_name, param_value) # rest) acc =
     params_loop db_parameters rest (match_param db_parameters param_name param_value acc)"

text \<open>The list \<^verbatim>\<open>app_args\<close> before the loop.\<close>

definition initial_app_args :: "plugin \<Rightarrow> json list" where
  "initial_app_args plg =
     (if meta_type plg = ''ds'' then [JStr str_app_container_inputdir] else [])
     @ [JStr str_app_container_outputdir, JStr ''--saveinputmeta'', JStr ''--saveoutputmeta'']"

text \<open>\<^verbatim>\<open>parameter_dict[path_param_names[-1]] if path_param_names else ''\<close>: the input
  directory before \<^verbatim>\<open>manage_app_service_fsplugin_inputdir\<close> sees it.\<close>

definition last_path_param :: "(string \<times> json) list \<Rightarrow> string list \<Rightarrow> error + json" where
  "last_path_param parameter_dict path_param_names =
     (if path_param_names \<noteq> [] then getitem (JDict parameter_dict) (last path_param_names)
      else Inr (JStr []))"

text \<open>The message \<^verbatim>\<open>d_msg\<close> of \<^verbatim>\<open>run_plugin_instance_app\<close>.\<close>

definition coordinate_msg :: "plugin_inst \<Rightarrow> string \<Rightarrow> string \<Rightarrow> string \<Rightarrow> json" where
  "coordinate_msg inst str_inputdir str_outputdir str_cmd =
     (let plg = plugin inst; str_IOPhost = compute_resource_name inst
      in JDict
        [(''action'', JStr ''coordinate''),
         (''threadAction'', JBool True),
         (''meta-store'', JDict [(''meta'', JStr ''meta-compute''), (''key'', JStr ''jid'')]),
         (''meta-data'', JDict
            [(''remote'', JDict [(''key'', JStr ''%meta-store'')]),
             (''localSource'', JDict [(''path'', JStr str_inputdir),
                                      (''storageType'', JStr ''swift'')]),
             (''localTarget'', JDict [(''path'', JStr str_outputdir),
                                      (''createDir'', JBool True)]),
             (''specialHandling'', JDict [(''op'', JStr ''plugin''), (''cleanup'', JBool True)]),
             (''transport'', JDict
                [(''mechanism'', JStr ''compress''),
                 (''compress'', JDict [(''archive'', JStr ''zip''),
                                       (''unpack'', JBool True),
                                       (''cleanup'', JBool True)])]),
             (''service'', JStr str_IOPhost)]),
         (''meta-compute'', JDict
            [(''cmd'', JStr (execshell plg @ '' '' @ str_cmd)),
             (''threaded'', JBool True),
             (''auid'', JStr (owner_username inst)),
             (''jid'', JStr (str_job_id inst)),
             (''number_of_workers'', JStr (str_int (number_of_workers inst))),
             (''cpu_limit'', JStr (cpu_limit inst)),
             (''memory_limit'', JStr (memory_limit inst)),
             (''gpu_limit'', JStr (gpu_limit inst)),
             (''container'', JDict
                [(''target'', JDict
                    [(''image'', JStr (dock_image plg)),
                     (''cmdParse'', JBool False),
                     (''selfexec'', JStr (selfexec plg)),
                     (''selfpath'', JStr (selfpath plg)),
                     (''execshell'', JStr (execshell plg))]),
                 (''manager'', JDict
                    [(''image'', JStr ''fnndsc/swarm''),
                     (''app'', JStr ''swarm.py''),
                     (''env'', JDict
                        [(''meta-store'', JStr ''key''),
                         (''serviceType'', JStr ''docker''),
                         (''shareDir'', JStr ''%shareDir''),
                         (''serviceName'', JStr (str_job_id inst))])])]),
             (''service'', JStr str_IOPhost)])])"

text \<open>The part of the method from the command line on, once the input directory is
  known.\<close>

definition submit_app :: "env \<Rightarrow> json list \<Rightarrow> string \<Rightarrow> state \<Rightarrow> (error + unit) \<times> state" where
  "submit_app env app_args str_inputdir s =
     (let inst = c_plugin_inst s; plg = plugin inst;
          str_exec = path_join (selfpath plg) (selfexec plg);
          l_appArgs = map py_str app_args;
          str_allCmdLineArgs = join '' '' l_appArgs;
          str_cmd = str_exec @ '' '' @ str_allCmdLineArgs;
          s1 = logf INFO (''cmd = '' @ str_cmd) s;
          str_outputdir = get_output_path env (inst_id inst)
      in case call_app_service env (coordinate_msg inst str_inputdir str_outputdir str_cmd) s1 of
           (Inl e, s2) \<Rightarrow> (Inl e, s2)
         | (Inr d_response, s2) \<Rightarrow> (Inr (), s2))"

definition run_plugin_instance_app ::
  "env \<Rightarrow> (string \<times> json) list \<Rightarrow> state \<Rightarrow> (error + unit) \<times> state" where
  "run_plugin_instance_app env parameter_dict s =
     (let inst = c_plugin_inst s; plg = plugin inst
      in case params_loop (parameters plg) parameter_dict (initial_app_args plg, [], []) of
           (app_args, path_param_names, unextpath_param_names) \<Rightarrow>
             (case previous inst of
                Some prev \<Rightarrow> submit_app env app_args (get_output_path env prev) s
              | None \<Rightarrow>
                  (case last_path_param parameter_dict path_param_names of
                     Inl e \<Rightarrow> (Inl e, s)
                   | Inr inputdir \<Rightarrow>
                       (case manage_app_service_fsplugin_inputdir env inputdir s of
                          (Inl e, s1) \<Rightarrow> (Inl e, s1)
                        | (Inr str_inputdir, s1) \<Rightarrow> submit_app env app_args str_inputdir s1))))"

subsection \<open>\<^verbatim>\<open>json_zipToStr\<close> and \<^verbatim>\<open>serialize_app_response_status\<close>\<close>

definition json_zipToStr :: "env \<Rightarrow> json \<Rightarrow> string" where
  "json_zipToStr env json_data =
     b64encode (zlib_compress env (utf8_encode (json_dumps env None False json_data)))"

text \<open>The first container log line, or the placeholder when any subscript of the chain
  raises (the bare \<^verbatim>\<open>except\<close>); the dicts of a parsed response have string keys, so
  \<^verbatim>\<open>[0]\<close> succeeds on a non-empty list and on a non-empty string only.\<close>

definition container_logs :: "json \<Rightarrow> json" where
  "container_logs d_response =
     (case getpath d_response
             [''jobOperation'', ''info'', ''compute'', ''return'', ''d_ret'', ''l_logs''] of
        Inr (JList (x # xs)) \<Rightarrow> x
      | Inr (JStr (c # cs)) \<Rightarrow> JStr [c]
      | _ \<Rightarrow> JStr ''Container logs not currently available.'')"

text \<open>\<^verbatim>\<open>''.join(str(d[k1]...[kn]['status']).split())\<close>.\<close>

definition action_status :: "json \<Rightarrow> string list \<Rightarrow> error + string" where
  "action_status d_response keys =
     (case getpath d_response (''jobOperationSummary'' # keys @ [''status'']) of
        Inl e \<Rightarrow> Inl e
      | Inr v \<Rightarrow> Inr (join [] (split (py_str v))))"

text \<open>The inner loop over the parts of \<^verbatim>\<open>compute\<close>, and the loop over the actions.\<close>

fun parts_loop :: "json \<Rightarrow> string \<Rightarrow> string list \<Rightarrow> string \<Rightarrow> error + string" where
  "parts_loop d_response str_action [] str_responseStatus = Inr str_responseStatus"
| "parts_loop d_response str_action (str_part # parts) str_responseStatus =
     (case action_status d_response [str_action, str_part] of
        Inl e \<Rightarrow> Inl e
      | Inr str_actionStatus \<Rightarrow>
          parts_loop d_response str_action parts
            (str_responseStatus @ str_action @ ''.'' @ str_part @ '':''
               @ str_actionStatus @ '';''))"

fun actions_loop :: "json \<Rightarrow> string list \<Rightarrow> string \<Rightarrow> error + string" where
  "actions_loop d_response [] str_responseStatus = Inr str_responseStatus"
| "actions_loop d_response (str_action # actions) str_responseStatus =
     (if str_action = ''compute'' then
        (case parts_loop d_response str_action [''submit'', ''return''] str_responseStatus of
           Inl e \<Rightarrow> Inl e
         | Inr r \<Rightarrow> actions_loop d_response actions r)
      else
        (case action_status d_response [str_action] of
           Inl e \<Rightarrow> Inl e
         | Inr str_actionStatus \<Rightarrow>
             actions_loop d_response actions
               (str_responseStatus @ str_action @ '':'' @ str_actionStatus @ '';'')))"

definition serialize_app_response_status ::
  "env \<Rightarrow> json \<Rightarrow> state \<Rightarrow> (error + string) \<times> state" where
  "serialize_app_response_status env d_response s =
     (case getitem d_response ''jobOperationSummary'' of
        Inl e \<Rightarrow> (Inl e, s)
      | Inr d_summary \<Rightarrow>
          (let str_summary = json_dumps env None False d_summary
           in case getitem d_response ''jobOperation'' of
                Inl e \<Rightarrow> (Inl e, s)
              | Inr d_jobOperation \<Rightarrow>
                  (let str_raw = json_zipToStr env d_jobOperation;
                       str_containerLogs = container_logs d_response;
                       s1 = s\<lparr>c_plugin_inst :=
                                (c_plugin_inst s)\<lparr>summary := str_summary, raw := str_raw\<rparr>,
                              journal := journal s @
                                [SetAttr ''summary'' (JStr str_summary),
                                 SetAttr ''raw'' (JStr str_raw), Save]\<rparr>
                   in (actions_loop d_response
                         [''pushPath'', ''compute'', ''pullPath'', ''swiftPut''] [], s1))))"

subsection \<open>\<^verbatim>\<open>handle_app_remote_error\<close>\<close>

text \<open>The nested function \<^verbatim>\<open>str_deepnest\<close> on the items of a dict; its nonlocal variable
  \<^verbatim>\<open>str_deepVal\<close> is passed in and returned.\<close>

fun str_deepnest :: "(string \<times> json) list \<Rightarrow> string \<Rightarrow> string" where
  "str_deepnest [] str_deepVal = str_deepVal"
| "str_deepnest ((k, JDict d) # items) str_deepVal =
     str_deepnest items (str_deepnest d str_deepVal)"
| "str_deepnest ((k, v) # items) str_deepVal =
     str_deepnest items (k @ '' : '' @ py_str v)"

definition search_msg :: "plugin_inst \<Rightarrow> string \<Rightarrow> json" where
  "search_msg inst field =
     JDict [(''action'', JStr ''search''),
            (''meta'', JDict [(''key'', JStr ''jid''),
                              (''value'', JStr (str_job_id inst)),
                              (''job'', JStr ''0''),
                              (''when'', JStr ''end''),
                              (''field'', JStr field)])]"

text \<open>One query and its descent: \<^verbatim>\<open>d.items()\<close> is an AttributeError on anything that is
  not a dict.\<close>

definition search_field :: "env \<Rightarrow> string \<Rightarrow> string \<Rightarrow> state \<Rightarrow> (error + string) \<times> state" where
  "search_field env field str_deepVal s =
     (case call_app_service env (search_msg (c_plugin_inst s) field) s of
        (Inl e, s1) \<Rightarrow> (Inl e, s1)
      | (Inr d_response, s1) \<Rightarrow>
          (case getitem d_response ''d_ret'' of
             Inl e \<Rightarrow> (Inl e, s1)
           | Inr (JDict items) \<Rightarrow>
               (let v = str_deepnest items str_deepVal
                in (Inr v, logf ERROR (''deepVal = '' @ v) s1))
           | Inr _ \<Rightarrow> (Inl AttributeError, s1)))"

definition handle_app_remote_error :: "env \<Rightarrow> state \<Rightarrow> (error + unit) \<times> state" where
  "handle_app_remote_error env s =
     (case search_field env ''stderr'' [] s of
        (Inl e, s1) \<Rightarrow> (Inl e, s1)
      | (Inr str_deepVal, s1) \<Rightarrow>
          (case search_field env ''returncode'' str_deepVal s1 of
             (Inl e, s2) \<Rightarrow> (Inl e, s2)
           | (Inr v, s2) \<Rightarrow> (Inr (), s2)))"

subsection \<open>\<^verbatim>\<open>check_plugin_instance_app_exec_status\<close>\<close>

definition status_msg :: "plugin_inst \<Rightarrow> json" where
  "status_msg inst =
     JDict [(''action'', JStr ''status''),
            (''meta'', JDict [(''remote'', JDict [(''key'', JStr (str_job_id inst))])])]"

text \<open>The body of the first \<^verbatim>\<open>if\<close>: the output files are registered, the status and the
  end date are set and the instance is saved.\<close>

definition register_and_finish :: "env \<Rightarrow> json \<Rightarrow> state \<Rightarrow> (error + unit) \<times> state" where
  "register_and_finish env d_response s =
     (case getpath d_response [''jobOperation'', ''info'', ''swiftPut''] of
        Inl e \<Rightarrow> (Inl e, s)
      | Inr d_swiftState \<Rightarrow>
          (let s1 = s\<lparr>journal := journal s @ [RegisterOutputFiles d_swiftState]\<rparr>;
               s2 = s1\<lparr>c_plugin_inst := (c_plugin_inst s1)\<lparr>status := ''finishedSuccessfully''\<rparr>,
                       journal := journal s1 @ [SetAttr ''status'' (JStr ''finishedSuccessfully'')]\<rparr>;
               s3 = logf INFO (''Saving job DB status   as '' @ [CHR 0x27]
                                 @ status (c_plugin_inst s2) @ [CHR 0x27]) s2;
               s4 = s3\<lparr>c_plugin_inst := (c_plugin_inst s3)\<lparr>end_date := Some (now env)\<rparr>,
                       journal := journal s3 @ [SetAttr ''end_date'' (JInt (int (now env)))]\<rparr>;
               s5 = logf INFO (''Saving job DB end_date as '' @ [CHR 0x27]
                                 @ str_nat (now env) @ [CHR 0x27]) s4
           in (Inr (), s5\<lparr>journal := journal s5 @ [Save]\<rparr>)))"

definition check_plugin_instance_app_exec_status :: "env \<Rightarrow> state \<Rightarrow> (error + unit) \<times> state" where
  "check_plugin_instance_app_exec_status env s =
     (case call_app_service env (status_msg (c_plugin_inst s)) s of
        (Inl e, s1) \<Rightarrow> (Inl e, s1)
      | (Inr d_response, s1) \<Rightarrow>
          (let s2 = logf INFO (''d_response = '' @ json_dumps env (Some 4) True d_response) s1
           in case serialize_app_response_status env d_response s2 of
                (Inl e, s3) \<Rightarrow> (Inl e, s3)
              | (Inr str_responseStatus, s3) \<Rightarrow>
                  (let s4 = logf INFO (''Current job remote status = '' @ str_responseStatus) s3;
                       str_DBstatus = status (c_plugin_inst s4);
                       s5 = logf INFO (''Current job DB status = '' @ str_DBstatus) s4
                   in case (if str_contains ''swiftPut:True'' str_responseStatus
                               \<and> str_DBstatus \<noteq> ''finishedSuccessfully''
                            then register_and_finish env d_response s5
                            else (Inr (), s5)) of
                        (Inl e, s6) \<Rightarrow> (Inl e, s6)
                      | (Inr u, s6) \<Rightarrow>
                          if str_responseStatus = ''finishedWithError''
                          then handle_app_remote_error env s6
                          else (Inr (), s6))))"

subsection \<open>\<^verbatim>\<open>create_zip_file\<close>\<close>

text \<open>\<^verbatim>\<open>job_data_zip.writestr(name, contents)\<close> on the archive at \<open>zp\<close>.\<close>

definition writestr :: "string \<Rightarrow> string \<Rightarrow> string \<Rightarrow> state \<Rightarrow> state" where
  "writestr zp name contents s =
     s\<lparr>local_zips :=
         map (\<lambda>(p, entries). if p = zp then (p, entries @ [(name, contents)]) else (p, entries))
           (local_zips s)\<rparr>"

text \<open>
  The inner loop over the listed objects. The local variable \<^verbatim>\<open>contents\<close> is \<open>None\<close>
  while it is unbound. The \<^verbatim>\<open>except\<close> clause logs and falls through to
  \<^verbatim>\<open>writestr(obj_path, contents)\<close>, which stands after the \<^verbatim>\<open>try\<close> statement: it reads
  whatever \<^verbatim>\<open>contents\<close> holds then.
\<close>

fun objs_loop ::
  "env \<Rightarrow> string \<Rightarrow> string list \<Rightarrow> string option \<Rightarrow> state \<Rightarrow> (error + string option) \<times> state" where
  "objs_loop env zp [] contents s = (Inr contents, s)"
| "objs_loop env zp (obj_path # l_ls) contents s =
     (case download_obj env obj_path s of
        (Inl detail, s1) \<Rightarrow>
          (let s2 = logf ERROR (''Downloading of file '' @ obj_path
                                  @ '' from swift storage for ''
                                  @ str_job_id (c_plugin_inst s1)
                                  @ '' job failed, detail: '' @ detail) s1
           in case contents of
                None \<Rightarrow> (Inl (UnboundLocalError ''contents''), s2)
              | Some c \<Rightarrow> objs_loop env zp l_ls contents (writestr zp obj_path c s2))
      | (Inr c, s1) \<Rightarrow> objs_loop env zp l_ls (Some c) (writestr zp obj_path c s1))"

text \<open>The loop over the prefixes: a failed listing is logged and leaves \<^verbatim>\<open>l_ls\<close> empty.\<close>

fun paths_loop ::
  "env \<Rightarrow> string \<Rightarrow> string list \<Rightarrow> string option \<Rightarrow> state \<Rightarrow> (error + string option) \<times> state" where
  "paths_loop env zp [] contents s = (Inr contents, s)"
| "paths_loop env zp (swift_path # swift_paths) contents s =
     (case (case ls env swift_path s of
              (Inl detail, s1) \<Rightarrow>
                ([], logf ERROR (''Listing of swift storage files in '' @ swift_path
                                   @ '' failed, detail: '' @ detail) s1)
            | (Inr l, s1) \<Rightarrow> (l, s1)) of
        (l_ls, s2) \<Rightarrow>
          (case objs_loop env zp l_ls contents s2 of
             (Inl e, s3) \<Rightarrow> (Inl e, s3)
           | (Inr contents', s3) \<Rightarrow> paths_loop env zp swift_paths contents' s3))"

definition zipfile_path :: "env \<Rightarrow> plugin_inst \<Rightarrow> string" where
  "zipfile_path env inst = path_join (data_dir env) (str_job_id inst @ ''.zip'')"

text \<open>
  The method has no \<^verbatim>\<open>return\<close> statement: when it completes its value is \<^verbatim>\<open>None\<close>.
  Opening the archive for writing needs its directory; the archive is closed, with the
  entries written so far, also when the body of the \<^verbatim>\<open>with\<close> raises.
\<close>

definition create_zip_file :: "env \<Rightarrow> string list \<Rightarrow> state \<Rightarrow> (error + json) \<times> state" where
  "create_zip_file env swift_paths s =
     (let s1 = (if data_dir env \<notin> set (local_dirs s) then
                  (case makedirs_fails env of
                     Some detail \<Rightarrow>
                       logf ERROR (''Creation of dir '' @ data_dir env
                                     @ '' failed, detail: '' @ detail) s
                   | None \<Rightarrow> s\<lparr>local_dirs := local_dirs s @ [data_dir env]\<rparr>)
                else s);
          zp = zipfile_path env (c_plugin_inst s1)
      in if data_dir env \<notin> set (local_dirs s1) then (Inl (FileNotFoundError zp), s1)
         else
           (case paths_loop env zp swift_paths None
                   (s1\<lparr>local_zips := put_obj zp [] (local_zips s1)\<rparr>) of
              (Inl e, s2) \<Rightarrow> (Inl e, s2)
            | (Inr contents, s2) \<Rightarrow> (Inr JNull, s2)))"

section \<open>Reading the journal\<close>

text \<open>The calls of \<^verbatim>\<open>register_output_files\<close>, the assignments to \<^verbatim>\<open>end_date\<close>, the messages
  sent to the remote service and the calls of the storage client, as the journal has
  them.\<close>

fun is_registration :: "event \<Rightarrow> bool" where
  "is_registration (RegisterOutputFiles d) = True"
| "is_registration _ = False"

fun is_end_date_write :: "event \<Rightarrow> bool" where
  "is_end_date_write (SetAttr a v) = (a = ''end_date'')"
| "is_end_date_write _ = False"

definition registrations :: "event list \<Rightarrow> nat" where
  "registrations j = length (filter is_registration j)"

definition end_date_writes :: "event list \<Rightarrow> nat" where
  "end_date_writes j = length (filter is_end_date_write j)"

fun sent_msgs :: "event list \<Rightarrow> json list" where
  "sent_msgs [] = []"
| "sent_msgs (Sent m # j) = m # sent_msgs j"
| "sent_msgs (e # j) = sent_msgs j"

fun swift_calls :: "event list \<Rightarrow> swift_op list" where
  "swift_calls [] = []"
| "swift_calls (Swift op # j) = op # swift_calls j"
| "swift_calls (e # j) = swift_calls j"

text \<open>The Error Collector (\<^verbatim>\<open>handle_app_remote_error\<close>) is the only sender of
  \<^verbatim>\<open>search\<close> messages.\<close>

definition search_msgs :: "event list \<Rightarrow> json list" where
  "search_msgs j = filter (\<lambda>m. getitem m ''action'' = Inr (JStr ''search'')) (sent_msgs j)"

text \<open>The input locations of the messages sent: \<^verbatim>\<open>d_msg['meta-data']['localSource']['path']\<close>
  of each.\<close>

definition source_paths :: "event list \<Rightarrow> (error + json) list" where
  "source_paths j = map (\<lambda>m. getpath m [''meta-data'', ''localSource'', ''path'']) (sent_msgs j)"

text \<open>Whether the loop of \<^verbatim>\<open>run_plugin_instance_app\<close> appends a submitted name to
  \<^verbatim>\<open>path_param_names\<close>: the first parameter of that name has the action \<^verbatim>\<open>store\<close> and the
  type \<^verbatim>\<open>path\<close>.\<close>

definition stored_path_param :: "plugin_parameter list \<Rightarrow> string \<Rightarrow> bool" where
  "stored_path_param db_parameters param_name =
     (case find (\<lambda>p. db_name p = param_name) db_parameters of
        None \<Rightarrow> False
      | Some p \<Rightarrow> db_action p = ''store'' \<and> db_type p = ''path'')"

section \<open>Definitions that follow the specification's words\<close>

text \<open>A token of the normalized status string as the specification describes it: the
  phase, a colon, the status with its whitespace removed, a semicolon.\<close>

definition spec_token :: "string \<Rightarrow> json \<Rightarrow> string" where
  "spec_token phase v = phase @ '':'' @ filter (\<lambda>c. \<not> isspace c) (py_str v) @ '';''"

text \<open>A submitted parameter is a declared \<^verbatim>\<open>path\<close>-typed parameter when its spec, the
  first one of its name, has the type \<^verbatim>\<open>path\<close>.\<close>

definition spec_is_path_param :: "plugin_parameter list \<Rightarrow> string \<Rightarrow> bool" where
  "spec_is_path_param db_parameters param_name =
     (case find (\<lambda>p. db_name p = param_name) db_parameters of
        None \<Rightarrow> False
      | Some p \<Rightarrow> db_type p = ''path'')"

text \<open>The input location before the squash, in the specification's words: the value of
  the last declared \<^verbatim>\<open>path\<close>-typed parameter present in the submitted values, or the empty
  string if there is none. The declared parameters are taken in the order of their
  declaration.\<close>

definition spec_last_declared_path_value ::
  "plugin_parameter list \<Rightarrow> (string \<times> json) list \<Rightarrow> json" where
  "spec_last_declared_path_value db_parameters parameter_dict =
     (case filter (\<lambda>p. db_type p = ''path'' \<and> db_name p \<in> fst ` set parameter_dict)
             db_parameters of
        [] \<Rightarrow> JStr []
      | p # ps \<Rightarrow>
          (case map_of parameter_dict (db_name (last (p # ps))) of
             None \<Rightarrow> JStr []
           | Some v \<Rightarrow> v))"

text \<open>The same with the order and the parameters that the loop of
  \<^verbatim>\<open>run_plugin_instance_app\<close> uses: the value of the last submitted parameter, in the
  order of the submitted dict, whose spec (the first one of its name) has the action
  \<^verbatim>\<open>store\<close> and the type \<^verbatim>\<open>path\<close>, or the empty string if there is none.\<close>

definition last_submitted_path_value ::
  "plugin_parameter list \<Rightarrow> (string \<times> json) list \<Rightarrow> json" where
  "last_submitted_path_value db_parameters parameter_dict =
     (case filter (\<lambda>kv. stored_path_param db_parameters (fst kv)) parameter_dict of
        [] \<Rightarrow> JStr []
      | kv # kvs \<Rightarrow> snd (last (kv # kvs)))"

text \<open>The squash file of a job without input and the placeholder directory that holds
  it.\<close>

definition squash_empty_file :: "env \<Rightarrow> string" where
  "squash_empty_file env =
     lstrip CHR ''/'' (path_join (data_dir env) ''squashEmptyDir/squashEmptyDir.txt'')"

definition squash_empty_dir :: "env \<Rightarrow> string" where
  "squash_empty_dir env = dirname (squash_empty_file env)"





section \<open>Concrete jobs, responses and environments\<close>

definition plugin0 :: plugin where
  "plugin0 =
     \<lparr>meta_type = ''fs'', selfpath = ''/usr/src/simplefsapp'', selfexec = ''simplefsapp.py'',
      execshell = ''python3'', dock_image = ''fnndsc/pl-simplefsapp'',
      parameters = [\<lparr>db_name = ''dir'', db_flag = ''--dir'', db_action = ''store'',
                     db_type = ''path''\<rparr>,
                    \<lparr>db_name = ''prefix'', db_flag = ''--prefix'', db_action = ''store'',
                     db_type = ''string''\<rparr>]\<rparr>"

definition inst0 :: plugin_inst where
  "inst0 =
     \<lparr>inst_id = 42, previous = None, plugin = plugin0, owner_username = ''foo'',
      compute_resource_name = ''host'', compute_url = ''http://pfcon:5005'',
      number_of_workers = 1, cpu_limit = ''1000m'', memory_limit = ''200Mi'',
      gpu_limit = ''0'', status = ''started'', summary = [], raw = [], end_date = None\<rparr>"

definition s0 :: state where
  "s0 = \<lparr>c_plugin_inst = inst0, swift = [], local_dirs = [], local_zips = [], journal = []\<rparr>"

text \<open>A status response of a job that went through every phase, and one whose compute
  phase returned with an error.\<close>

definition response_ok :: json where
  "response_ok =
     JDict [(''jobOperation'', JDict [(''info'', JDict [(''swiftPut'', JDict [(''status'', JBool True)])])]),
            (''jobOperationSummary'', JDict
               [(''pushPath'', JDict [(''status'', JBool True)]),
                (''compute'', JDict
                   [(''submit'', JDict [(''status'', JBool True)]),
                    (''return'', JDict [(''status'', JStr ''finishedSuccessfully'')])]),
                (''pullPath'', JDict [(''status'', JBool True)]),
                (''swiftPut'', JDict [(''status'', JBool True)])])]"

definition response_error :: json where
  "response_error =
     JDict [(''jobOperation'', JDict [(''info'', JDict [])]),
            (''jobOperationSummary'', JDict
               [(''pushPath'', JDict [(''status'', JBool True)]),
                (''compute'', JDict
                   [(''submit'', JDict [(''status'', JBool True)]),
                    (''return'', JDict [(''status'', JStr ''finishedWithError'')])]),
                (''pullPath'', JDict [(''status'', JBool False)]),
                (''swiftPut'', JDict [(''status'', JBool False)])])]"

text \<open>An environment in which nothing fails; the remote service answers every message
  with \<open>r\<close>.\<close>

definition env_of :: "json \<Rightarrow> nat \<Rightarrow> env" where
  "env_of r t =
     \<lparr>home = ''/root'', now = t, remote = (\<lambda>msg. Inr r), swift_fails = (\<lambda>op. None),
      makedirs_fails = None,
      get_output_path = (\<lambda>i. ''foo/feed_1/pl_'' @ str_int i @ ''/data''),
      json_dumps = (\<lambda>indent sort_keys v. ''{}''), zlib_compress = (\<lambda>b. b)\<rparr>"

text \<open>A container with three objects, and an environment in which nothing fails but the
  one storage call \<open>op\<close>.\<close>

definition s_objs :: state where
  "s_objs = s0\<lparr>swift := [(''a/1'', ''x''), (''a/2'', ''y''), (''b/1'', ''z'')]\<rparr>"

definition env_failing :: "swift_op \<Rightarrow> env" where
  "env_failing op =
     (env_of JNull 0)\<lparr>swift_fails := (\<lambda>op'. if op' = op then Some ''boom'' else None)\<rparr>"

text \<open>A container in which the squash file of the jobs without input is there already,
  with another content.\<close>

definition s_squashed :: state where
  "s_squashed = s0\<lparr>swift := [(''root/data/squashEmptyDir/squashEmptyDir.txt'', ''old'')]\<rparr>"

text \<open>A root job of a plugin that declares two \<^verbatim>\<open>path\<close> parameters, \<^verbatim>\<open>a\<close> before
  \<^verbatim>\<open>b\<close>, over a container that has objects under \<^verbatim>\<open>a/\<close> and under \<^verbatim>\<open>b/\<close>; and a
  root job of a plugin whose only parameter has the type \<^verbatim>\<open>path\<close> and the action
  \<^verbatim>\<open>store_true\<close>.\<close>

definition s_two_paths :: state where
  "s_two_paths =
     s_objs\<lparr>c_plugin_inst := inst0\<lparr>plugin := plugin0\<lparr>parameters :=
       [\<lparr>db_name = ''a'', db_flag = ''--a'', db_action = ''store'', db_type = ''path''\<rparr>,
        \<lparr>db_name = ''b'', db_flag = ''--b'', db_action = ''store'', db_type = ''path''\<rparr>]\<rparr>\<rparr>\<rparr>"

definition s_flag_path :: state where
  "s_flag_path =
     s_objs\<lparr>c_plugin_inst := inst0\<lparr>plugin := plugin0\<lparr>parameters :=
       [\<lparr>db_name = ''a'', db_flag = ''--a'', db_action = ''store_true'',
         db_type = ''path''\<rparr>]\<rparr>\<rparr>\<rparr>"

section \<open>The normalized status string\<close>

lemma map_append_Nil: "map ((@) []) xs = xs"
  by (induction xs) simp_all

lemma join_empty_sep: "join [] parts = concat parts"
  by (cases parts) (simp_all add: join_def map_append_Nil)

lemma concat_split_run: "concat (split_run cur s) = cur @ filter (\<lambda>c. \<not> isspace c) s"
  by (induction s arbitrary: cur) simp_all

text \<open>\<^verbatim>\<open>''.join(s.split())\<close> removes every whitespace character of \<open>s\<close> and nothing
  else.\<close>

lemma join_split: "join [] (split s) = filter (\<lambda>c. \<not> isspace c) s"
  by (simp add: join_empty_sep split_def concat_split_run)

lemma action_status_eq:
  "getpath d (''jobOperationSummary'' # keys @ [''status'']) = Inr v \<Longrightarrow>
   action_status d keys = Inr (filter (\<lambda>c. \<not> isspace c) (py_str v))"
  by (simp add: action_status_def join_split)

lemma str_contains_self: "str_contains sub sub"
  by (cases sub) simp_all

lemma str_contains_append: "str_contains sub (pre @ sub)"
  by (induction pre) (simp_all add: str_contains_self)

lemma serialize_fst:
  "fst (serialize_app_response_status env d s) =
     (case getitem d ''jobOperationSummary'' of Inl e \<Rightarrow> Inl e
      | Inr x \<Rightarrow> (case getitem d ''jobOperation'' of Inl e \<Rightarrow> Inl e
          | Inr y \<Rightarrow> actions_loop d [''pushPath'', ''compute'', ''pullPath'', ''swiftPut''] []))"
  by (simp add: serialize_app_response_status_def Let_def split: sum.splits del: actions_loop.simps)

text \<open>
  Claim C8. For a status response with its \<^verbatim>\<open>jobOperation\<close> and with a status under each
  phase of its \<^verbatim>\<open>jobOperationSummary\<close>, \<^verbatim>\<open>serialize_app_response_status\<close> returns the
  concatenation of the tokens \<^verbatim>\<open><phase>:<status>;\<close> in the order pushPath, compute.submit,
  compute.return, pullPath, swiftPut, each status printed by \<^verbatim>\<open>str\<close> and with all its
  whitespace removed; when the swiftPut status is \<^verbatim>\<open>True\<close> the string contains
  \<^verbatim>\<open>swiftPut:True;\<close>.
\<close>

theorem serialize_status_tokens:
  assumes job: "getitem d_response ''jobOperation'' = Inr d_job"
    and push: "getpath d_response [''jobOperationSummary'', ''pushPath'', ''status''] = Inr v_push"
    and submit: "getpath d_response [''jobOperationSummary'', ''compute'', ''submit'', ''status'']
                   = Inr v_submit"
    and return: "getpath d_response [''jobOperationSummary'', ''compute'', ''return'', ''status'']
                   = Inr v_return"
    and pull: "getpath d_response [''jobOperationSummary'', ''pullPath'', ''status''] = Inr v_pull"
    and put: "getpath d_response [''jobOperationSummary'', ''swiftPut'', ''status''] = Inr v_put"
  shows "fst (serialize_app_response_status env d_response s) =
           Inr (spec_token ''pushPath'' v_push @ spec_token ''compute.submit'' v_submit
                @ spec_token ''compute.return'' v_return @ spec_token ''pullPath'' v_pull
                @ spec_token ''swiftPut'' v_put)
         \<and> (v_put = JBool True \<longrightarrow>
              str_contains ''swiftPut:True;''
                (spec_token ''pushPath'' v_push @ spec_token ''compute.submit'' v_submit
                 @ spec_token ''compute.return'' v_return @ spec_token ''pullPath'' v_pull
                 @ spec_token ''swiftPut'' v_put))"
proof -
  have a1: "action_status d_response [''pushPath'']
              = Inr (filter (\<lambda>c. \<not> isspace c) (py_str v_push))"
    using push by (intro action_status_eq) simp
  have a2: "action_status d_response [''compute'', ''submit'']
              = Inr (filter (\<lambda>c. \<not> isspace c) (py_str v_submit))"
    using submit by (intro action_status_eq) simp
  have a3: "action_status d_response [''compute'', ''return'']
              = Inr (filter (\<lambda>c. \<not> isspace c) (py_str v_return))"
    using return by (intro action_status_eq) simp
  have a4: "action_status d_response [''pullPath'']
              = Inr (filter (\<lambda>c. \<not> isspace c) (py_str v_pull))"
    using pull by (intro action_status_eq) simp
  have a5: "action_status d_response [''swiftPut'']
              = Inr (filter (\<lambda>c. \<not> isspace c) (py_str v_put))"
    using put by (intro action_status_eq) simp
  obtain d_summary where summ: "getitem d_response ''jobOperationSummary'' = Inr d_summary"
    using push by (simp split: sum.splits)
  have loop: "actions_loop d_response [''pushPath'', ''compute'', ''pullPath'', ''swiftPut''] [] =
           Inr (spec_token ''pushPath'' v_push @ spec_token ''compute.submit'' v_submit
                @ spec_token ''compute.return'' v_return @ spec_token ''pullPath'' v_pull
                @ spec_token ''swiftPut'' v_put)"
    unfolding spec_token_def by (simp add: a1 a2 a3 a4 a5)
  have first: "fst (serialize_app_response_status env d_response s) =
           Inr (spec_token ''pushPath'' v_push @ spec_token ''compute.submit'' v_submit
                @ spec_token ''compute.return'' v_return @ spec_token ''pullPath'' v_pull
                @ spec_token ''swiftPut'' v_put)"
    by (simp add: serialize_fst summ job loop del: actions_loop.simps)
  have "spec_token ''swiftPut'' (JBool True) = ''swiftPut:True;''"
    by (simp add: spec_token_def py_str_def isspace_def)
  then have second: "v_put = JBool True \<longrightarrow>
              str_contains ''swiftPut:True;''
                (spec_token ''pushPath'' v_push @ spec_token ''compute.submit'' v_submit
                 @ spec_token ''compute.return'' v_return @ spec_token ''pullPath'' v_pull
                 @ spec_token ''swiftPut'' v_put)"
    using str_contains_append[of "''swiftPut:True;''"
            "spec_token ''pushPath'' v_push @ spec_token ''compute.submit'' v_submit
             @ spec_token ''compute.return'' v_return @ spec_token ''pullPath'' v_pull"]
    by (simp del: str_contains.simps)
  from first second show ?thesis by blast
qed

theorem serialize_status_tokens_witness:
  "fst (serialize_app_response_status (env_of response_ok 1000) response_ok s0) =
     Inr ''pushPath:True;compute.submit:True;compute.return:finishedSuccessfully;pullPath:True;swiftPut:True;''
   \<and> str_contains ''swiftPut:True;''
        ''pushPath:True;compute.submit:True;compute.return:finishedSuccessfully;pullPath:True;swiftPut:True;''"
proof -
  have h0: "getitem response_ok ''jobOperation''
              = Inr (JDict [(''info'', JDict [(''swiftPut'', JDict [(''status'', JBool True)])])])"
    by (simp add: response_ok_def)
  have h1: "getpath response_ok [''jobOperationSummary'', ''pushPath'', ''status'']
              = Inr (JBool True)"
    by (simp add: response_ok_def)
  have h2: "getpath response_ok [''jobOperationSummary'', ''compute'', ''submit'', ''status'']
              = Inr (JBool True)"
    by (simp add: response_ok_def)
  have h3: "getpath response_ok [''jobOperationSummary'', ''compute'', ''return'', ''status'']
              = Inr (JStr ''finishedSuccessfully'')"
    by (simp add: response_ok_def)
  have h4: "getpath response_ok [''jobOperationSummary'', ''pullPath'', ''status'']
              = Inr (JBool True)"
    by (simp add: response_ok_def)
  have h5: "getpath response_ok [''jobOperationSummary'', ''swiftPut'', ''status'']
              = Inr (JBool True)"
    by (simp add: response_ok_def)
  have toks: "spec_token ''pushPath'' (JBool True) @ spec_token ''compute.submit'' (JBool True)
                @ spec_token ''compute.return'' (JStr ''finishedSuccessfully'')
                @ spec_token ''pullPath'' (JBool True) @ spec_token ''swiftPut'' (JBool True)
              = ''pushPath:True;compute.submit:True;compute.return:finishedSuccessfully;pullPath:True;swiftPut:True;''"
    by (simp add: spec_token_def py_str_def isspace_def)
  from serialize_status_tokens[OF h0 h1 h2 h3 h4 h5, of "env_of response_ok 1000" s0]
  show ?thesis unfolding toks by simp
qed

section \<open>The Error Collector is never reached\<close>

lemma take_append_prefix:
  assumes "take (length (xs @ ys)) r = xs @ ys"
  shows "take (length xs) r = xs"
proof -
  have "take (length xs) (take (length (xs @ ys)) r) = take (length xs) (xs @ ys)"
    using assms by simp
  then show ?thesis by (simp add: min_def)
qed

lemma take_prefix_trans:
  assumes "take (length xs) ys = xs" and "take (length ys) r = ys"
  shows "take (length xs) r = xs"
proof -
  have "length (take (length xs) ys) = length xs"
    using assms(1) by simp
  then have le: "length xs \<le> length ys"
    by simp
  have "take (length xs) (take (length ys) r) = xs"
    using assms by simp
  then show ?thesis using le by (simp add: min_def)
qed

text \<open>Both loops only append to the status string.\<close>

lemma parts_loop_prefix:
  "parts_loop d a ps acc = Inr r \<Longrightarrow> take (length acc) r = acc"
proof (induction ps arbitrary: acc)
  case Nil
  then show ?case by simp
next
  case (Cons p ps)
  from Cons.prems obtain st where
    r: "parts_loop d a ps (acc @ a @ ''.'' @ p @ '':'' @ st @ '';'') = Inr r"
    by (simp split: sum.splits)
  from Cons.IH[OF r] show ?case by (rule take_append_prefix)
qed

lemma actions_loop_prefix:
  "actions_loop d as acc = Inr r \<Longrightarrow> take (length acc) r = acc"
proof (induction as arbitrary: acc)
  case Nil
  then show ?case by simp
next
  case (Cons a as)
  show ?case
  proof (cases "a = ''compute''")
    case True
    with Cons.prems obtain r1 where
      r1: "parts_loop d a [''submit'', ''return''] acc = Inr r1" and
      r: "actions_loop d as r1 = Inr r"
      by (simp split: sum.splits del: parts_loop.simps)
    from parts_loop_prefix[OF r1] Cons.IH[OF r] show ?thesis
      by (rule take_prefix_trans)
  next
    case False
    with Cons.prems obtain st where
      r: "actions_loop d as (acc @ a @ '':'' @ st @ '';'') = Inr r"
      by (simp split: sum.splits)
    from Cons.IH[OF r] show ?thesis by (rule take_append_prefix)
  qed
qed

lemma status_starts_with_pushPath:
  assumes "actions_loop d [''pushPath'', ''compute'', ''pullPath'', ''swiftPut''] [] = Inr r"
  shows "take (length ''pushPath:'') r = ''pushPath:''"
proof -
  from assms obtain st where
    r: "actions_loop d [''compute'', ''pullPath'', ''swiftPut''] (''pushPath:'' @ st @ '';'') = Inr r"
    by (simp split: sum.splits del: parts_loop.simps)
  have "take (length (''pushPath:'' @ (st @ '';''))) r = ''pushPath:'' @ (st @ '';'')"
    using actions_loop_prefix[OF r] by simp
  then show ?thesis
    by (rule take_append_prefix)
qed

text \<open>The string that \<^verbatim>\<open>serialize_app_response_status\<close> returns starts with
  \<^verbatim>\<open>pushPath:\<close>, so it is never equal to \<^verbatim>\<open>finishedWithError\<close>.\<close>

lemma serialize_not_finishedWithError:
  "fst (serialize_app_response_status env d s) \<noteq> Inr ''finishedWithError''"
proof
  assume a: "fst (serialize_app_response_status env d s) = Inr ''finishedWithError''"
  then have "actions_loop d [''pushPath'', ''compute'', ''pullPath'', ''swiftPut''] []
               = Inr ''finishedWithError''"
    by (simp add: serialize_fst split: sum.splits del: actions_loop.simps)
  from status_starts_with_pushPath[OF this] show False by simp
qed

lemma serialize_result_not_error:
  "serialize_app_response_status env d s = (Inr st, s') \<Longrightarrow> st \<noteq> ''finishedWithError''"
  using serialize_not_finishedWithError[of env d s] by auto

text \<open>Hence the last \<^verbatim>\<open>if\<close> of \<^verbatim>\<open>check_plugin_instance_app_exec_status\<close> never calls
  \<^verbatim>\<open>handle_app_remote_error\<close>: the method is the status query, the serialization and
  the first \<^verbatim>\<open>if\<close>.\<close>

lemma check_without_error_collector:
  "check_plugin_instance_app_exec_status env s =
     (case call_app_service env (status_msg (c_plugin_inst s)) s of
        (Inl e, s1) \<Rightarrow> (Inl e, s1)
      | (Inr d_response, s1) \<Rightarrow>
          (case serialize_app_response_status env d_response
                  (logf INFO (''d_response = '' @ json_dumps env (Some 4) True d_response) s1) of
             (Inl e, s3) \<Rightarrow> (Inl e, s3)
           | (Inr str_responseStatus, s3) \<Rightarrow>
               (let s5 = logf INFO (''Current job DB status = '' @ status (c_plugin_inst s3))
                           (logf INFO (''Current job remote status = '' @ str_responseStatus) s3)
                in if str_contains ''swiftPut:True'' str_responseStatus
                      \<and> status (c_plugin_inst s3) \<noteq> ''finishedSuccessfully''
                   then register_and_finish env d_response s5
                   else (Inr (), s5))))"
  by (auto simp: check_plugin_instance_app_exec_status_def Let_def logf_def
           split: prod.splits sum.splits dest: serialize_result_not_error
           simp del: str_contains.simps)

lemmas reconcile_defs =
  check_plugin_instance_app_exec_status_def call_app_service_def serialize_app_response_status_def
  register_and_finish_def handle_app_remote_error_def search_field_def
  status_msg_def search_msg_def logf_def json_zipToStr_def container_logs_def action_status_def
  str_job_id_def str_int_def py_str_def split_def join_def isspace_def

text \<open>
  Claim C1. A status response whose compute-return phase reports \<^verbatim>\<open>finishedWithError\<close>:
  the reconciliation completes and the only message it sends is the status query, so
  \<^verbatim>\<open>handle_app_remote_error\<close>, which would send two \<^verbatim>\<open>search\<close> messages, is not invoked.
\<close>

theorem error_collector_skipped:
  "getpath response_error [''jobOperationSummary'', ''compute'', ''return'', ''status'']
     = Inr (JStr ''finishedWithError'')
   \<and> fst (check_plugin_instance_app_exec_status (env_of response_error 1000) s0) = Inr ()
   \<and> sent_msgs (journal (snd (check_plugin_instance_app_exec_status (env_of response_error 1000) s0)))
       = [status_msg inst0]"
  by (simp add: reconcile_defs response_error_def env_of_def s0_def inst0_def Let_def)

section \<open>Reconciling twice\<close>

lemma logf_effect [simp]:
  "c_plugin_inst (logf l m s) = c_plugin_inst s"
  "registrations (journal (logf l m s)) = registrations (journal s)"
  "end_date_writes (journal (logf l m s)) = end_date_writes (journal s)"
  by (simp_all add: logf_def registrations_def end_date_writes_def)

lemma call_app_service_effect:
  assumes "call_app_service env m s = (r, s')"
  shows "c_plugin_inst s' = c_plugin_inst s"
    and "registrations (journal s') = registrations (journal s)"
    and "end_date_writes (journal s') = end_date_writes (journal s)"
  using assms
  by (auto simp: call_app_service_def Let_def registrations_def end_date_writes_def logf_def
           split: sum.splits if_splits)

lemma call_app_service_result:
  "call_app_service env m s = (Inr d, s') \<Longrightarrow> remote env m = Inr d"
  by (auto simp: call_app_service_def Let_def split: sum.splits if_splits)

lemma serialize_effect:
  assumes "serialize_app_response_status env d s = (r, s')"
  shows "status (c_plugin_inst s') = status (c_plugin_inst s)"
    and "end_date (c_plugin_inst s') = end_date (c_plugin_inst s)"
    and "registrations (journal s') = registrations (journal s)"
    and "end_date_writes (journal s') = end_date_writes (journal s)"
  using assms
  by (auto simp: serialize_app_response_status_def Let_def registrations_def end_date_writes_def
           split: sum.splits simp del: actions_loop.simps)

lemma register_and_finish_effect:
  assumes "register_and_finish env d s = (Inr u, s')"
  shows "status (c_plugin_inst s') = ''finishedSuccessfully''"
    and "end_date (c_plugin_inst s') = Some (now env)"
    and "registrations (journal s') = registrations (journal s) + 1"
    and "end_date_writes (journal s') = end_date_writes (journal s) + 1"
  using assms
  by (auto simp: register_and_finish_def Let_def registrations_def end_date_writes_def logf_def
           split: sum.splits)

text \<open>A reconciliation that finds the status \<^verbatim>\<open>finishedSuccessfully\<close> registers nothing
  and leaves the end date alone, whatever the remote service answers.\<close>

lemma check_when_finished:
  assumes fin: "status (c_plugin_inst s) = ''finishedSuccessfully''"
  shows "registrations (journal (snd (check_plugin_instance_app_exec_status env s)))
           = registrations (journal s)
         \<and> end_date_writes (journal (snd (check_plugin_instance_app_exec_status env s)))
           = end_date_writes (journal s)
         \<and> end_date (c_plugin_inst (snd (check_plugin_instance_app_exec_status env s)))
           = end_date (c_plugin_inst s)"
proof -
  obtain r1 s1 where c: "call_app_service env (status_msg (c_plugin_inst s)) s = (r1, s1)"
    by (cases "call_app_service env (status_msg (c_plugin_inst s)) s")
  note e1 = call_app_service_effect[OF c]
  show ?thesis
  proof (cases r1)
    case (Inl e)
    then show ?thesis using c e1 by (simp add: check_without_error_collector)
  next
    case (Inr d)
    obtain r3 s3 where
      z: "serialize_app_response_status env d
            (logf INFO (''d_response = '' @ json_dumps env (Some 4) True d) s1) = (r3, s3)"
      by (cases "serialize_app_response_status env d
            (logf INFO (''d_response = '' @ json_dumps env (Some 4) True d) s1)")
    note e3 = serialize_effect[OF z]
    from e3(1) e1(1) fin have fin3: "status (c_plugin_inst s3) = ''finishedSuccessfully''"
      by simp
    show ?thesis
    proof (cases r3)
      case (Inl e)
      then show ?thesis using c Inr z e1 e3
        by (simp add: check_without_error_collector)
    next
      case st: (Inr str_responseStatus)
      then show ?thesis using c Inr z e1 e3 fin3
        by (simp add: check_without_error_collector Let_def del: str_contains.simps)
    qed
  qed
qed

text \<open>The first reconciliation that sees \<^verbatim>\<open>swiftPut:True\<close> on a job that is not yet
  \<^verbatim>\<open>finishedSuccessfully\<close>, and completes.\<close>

lemma check_first_success:
  assumes nfin: "status (c_plugin_inst s) \<noteq> ''finishedSuccessfully''"
    and rem: "remote env (status_msg (c_plugin_inst s)) = Inr d"
    and ser: "fst (serialize_app_response_status env d s) = Inr st"
    and put: "str_contains ''swiftPut:True'' st"
    and chk: "check_plugin_instance_app_exec_status env s = (Inr (), s')"
  shows "status (c_plugin_inst s') = ''finishedSuccessfully''
         \<and> end_date (c_plugin_inst s') = Some (now env)
         \<and> registrations (journal s') = registrations (journal s) + 1
         \<and> end_date_writes (journal s') = end_date_writes (journal s) + 1"
proof -
  obtain r1 s1 where c: "call_app_service env (status_msg (c_plugin_inst s)) s = (r1, s1)"
    by (cases "call_app_service env (status_msg (c_plugin_inst s)) s")
  note e1 = call_app_service_effect[OF c]
  from chk c obtain d' where r1: "r1 = Inr d'"
    by (cases r1) (simp_all add: check_without_error_collector)
  from call_app_service_result[OF c[unfolded r1]] rem have d': "d' = d" by simp
  obtain r3 s3 where
    z: "serialize_app_response_status env d
          (logf INFO (''d_response = '' @ json_dumps env (Some 4) True d) s1) = (r3, s3)"
    by (cases "serialize_app_response_status env d
          (logf INFO (''d_response = '' @ json_dumps env (Some 4) True d) s1)")
  note e3 = serialize_effect[OF z]
  have "fst (serialize_app_response_status env d
          (logf INFO (''d_response = '' @ json_dumps env (Some 4) True d) s1)) = Inr st"
    using ser by (simp add: serialize_fst del: actions_loop.simps)
  with z have r3: "r3 = Inr st" by simp
  from e3(1) e1(1) nfin have nfin3: "status (c_plugin_inst s3) \<noteq> ''finishedSuccessfully''"
    by simp
  have reg: "register_and_finish env d
          (logf INFO (''Current job DB status = '' @ status (c_plugin_inst s3))
             (logf INFO (''Current job remote status = '' @ st) s3)) = (Inr (), s')"
    using chk c r1 d' z r3 put nfin3
    by (simp add: check_without_error_collector Let_def del: str_contains.simps)
  note e5 = register_and_finish_effect[OF reg]
  show ?thesis using e5 e3 e1 by simp
qed

text \<open>
  Claim C2. A job that is not yet \<^verbatim>\<open>finishedSuccessfully\<close> is reconciled while the remote
  service reports \<^verbatim>\<open>swiftPut:True\<close>, and the reconciliation completes; it is then
  reconciled again, against any answer of the remote service. After both there is
  exactly one more call of \<^verbatim>\<open>register_output_files\<close> and exactly one more assignment to
  \<^verbatim>\<open>end_date\<close> than before: the second reconciliation adds none, and the end date is the
  time of the first.
\<close>

theorem reconcile_twice_registers_once:
  assumes "status (c_plugin_inst s) \<noteq> ''finishedSuccessfully''"
    and "remote env1 (status_msg (c_plugin_inst s)) = Inr d1"
    and "fst (serialize_app_response_status env1 d1 s) = Inr st1"
    and "str_contains ''swiftPut:True'' st1"
    and "check_plugin_instance_app_exec_status env1 s = (Inr (), s1)"
  shows "registrations (journal (snd (check_plugin_instance_app_exec_status env2 s1)))
           = registrations (journal s) + 1
         \<and> end_date_writes (journal (snd (check_plugin_instance_app_exec_status env2 s1)))
           = end_date_writes (journal s) + 1
         \<and> registrations (journal (snd (check_plugin_instance_app_exec_status env2 s1)))
           = registrations (journal s1)
         \<and> end_date_writes (journal (snd (check_plugin_instance_app_exec_status env2 s1)))
           = end_date_writes (journal s1)
         \<and> end_date (c_plugin_inst (snd (check_plugin_instance_app_exec_status env2 s1)))
           = Some (now env1)"
proof -
  note first = check_first_success[OF assms]
  from first have fin: "status (c_plugin_inst s1) = ''finishedSuccessfully''" by simp
  note second = check_when_finished[OF fin, of env2]
  show ?thesis using first second by simp
qed

theorem reconcile_twice_registers_once_witness:
  "registrations (journal (snd (check_plugin_instance_app_exec_status (env_of response_ok 2000)
      (snd (check_plugin_instance_app_exec_status (env_of response_ok 1000) s0))))) = 1
   \<and> end_date_writes (journal (snd (check_plugin_instance_app_exec_status (env_of response_ok 2000)
      (snd (check_plugin_instance_app_exec_status (env_of response_ok 1000) s0))))) = 1
   \<and> end_date (c_plugin_inst (snd (check_plugin_instance_app_exec_status (env_of response_ok 2000)
      (snd (check_plugin_instance_app_exec_status (env_of response_ok 1000) s0))))) = Some 1000"
proof -
  have h1: "status (c_plugin_inst s0) \<noteq> ''finishedSuccessfully''"
    by (simp add: s0_def inst0_def)
  have h2: "remote (env_of response_ok 1000) (status_msg (c_plugin_inst s0)) = Inr response_ok"
    by (simp add: env_of_def)
  have h3: "fst (serialize_app_response_status (env_of response_ok 1000) response_ok s0)
              = Inr ''pushPath:True;compute.submit:True;compute.return:finishedSuccessfully;pullPath:True;swiftPut:True;''"
    by (simp add: reconcile_defs response_ok_def Let_def)
  have h4: "str_contains ''swiftPut:True''
              ''pushPath:True;compute.submit:True;compute.return:finishedSuccessfully;pullPath:True;swiftPut:True;''"
    by simp
  have "fst (check_plugin_instance_app_exec_status (env_of response_ok 1000) s0) = Inr ()"
    by (simp add: reconcile_defs response_ok_def env_of_def s0_def inst0_def Let_def)
  then have h5: "check_plugin_instance_app_exec_status (env_of response_ok 1000) s0
              = (Inr (), snd (check_plugin_instance_app_exec_status (env_of response_ok 1000) s0))"
    by (simp add: prod_eq_iff)
  from reconcile_twice_registers_once[OF h1 h2 h3 h4 h5, of "env_of response_ok 2000"]
  show ?thesis
    by (simp add: s0_def registrations_def end_date_writes_def env_of_def)
qed

section \<open>The archive builder\<close>

lemmas zip_defs =
  create_zip_file_def ls_def download_obj_def swift_call_def writestr_def put_obj_def
  zipfile_path_def data_dir_def path_join_def str_job_id_def str_int_def str_nat.simps logf_def

text \<open>
  Claim C3. The container holds \<^verbatim>\<open>a/1\<close>, \<^verbatim>\<open>a/2\<close> and \<^verbatim>\<open>b/1\<close>. When the download of
  \<^verbatim>\<open>a/2\<close> fails, the archive built from the prefix \<^verbatim>\<open>a/\<close> has an entry \<^verbatim>\<open>a/2\<close> all the
  same, with the content of \<^verbatim>\<open>a/1\<close>. When the download of \<^verbatim>\<open>a/1\<close>, the first one, fails,
  the method raises \<^verbatim>\<open>UnboundLocalError\<close> and leaves an empty archive, although \<^verbatim>\<open>a/2\<close>
  and \<^verbatim>\<open>b/1\<close> could be downloaded.
\<close>

theorem failed_download_is_archived:
  "fst (download_obj (env_failing (DownloadObj ''a/2'')) ''a/2'' s_objs) = Inl ''boom''
   \<and> fst (create_zip_file (env_failing (DownloadObj ''a/2'')) [''a/''] s_objs) = Inr JNull
   \<and> map_of (local_zips (snd (create_zip_file (env_failing (DownloadObj ''a/2'')) [''a/''] s_objs)))
        ''/root/data/chris-jid-42.zip''
       = Some [(''a/1'', ''x''), (''a/2'', ''x'')]
   \<and> fst (create_zip_file (env_failing (DownloadObj ''a/1'')) [''a/'', ''b/''] s_objs)
       = Inl (UnboundLocalError ''contents'')
   \<and> map_of (local_zips (snd (create_zip_file (env_failing (DownloadObj ''a/1'')) [''a/'', ''b/''] s_objs)))
        ''/root/data/chris-jid-42.zip''
       = Some []"
  by (simp add: zip_defs env_failing_def env_of_def s_objs_def s0_def inst0_def Let_def)

text \<open>The loops when no download fails: they complete, and they change neither the
  container nor the set of archives on the local disk.\<close>

lemma writestr_effect [simp]:
  "swift (writestr zp n c s) = swift s"
  "fst ` set (local_zips (writestr zp n c s)) = fst ` set (local_zips s)"
  by (force simp: writestr_def image_iff split: prod.splits)+

lemma objs_loop_completes:
  assumes "\<forall>k. swift_fails env (DownloadObj k) = None"
    and "set l_ls \<subseteq> fst ` set (swift s)"
  shows "\<exists>c s'. objs_loop env zp l_ls contents s = (Inr c, s') \<and> swift s' = swift s
           \<and> fst ` set (local_zips s') = fst ` set (local_zips s)"
  using assms(2)
proof (induction l_ls arbitrary: contents s)
  case Nil
  then show ?case by simp
next
  case (Cons obj_path l_ls)
  from Cons.prems obtain v where v: "map_of (swift s) obj_path = Some v"
    by (auto simp: image_iff dest: weak_map_of_SomeI)
  let ?s1 = "s\<lparr>journal := journal s @ [Swift (DownloadObj obj_path)]\<rparr>"
  have d: "download_obj env obj_path s = (Inr v, ?s1)"
    using assms(1) v by (simp add: download_obj_def swift_call_def)
  have sub: "set l_ls \<subseteq> fst ` set (swift (writestr zp obj_path v ?s1))"
    using Cons.prems by simp
  from Cons.IH[OF sub, of "Some v"] show ?case
    using d by simp
qed

lemma paths_loop_completes:
  assumes "\<forall>k. swift_fails env (DownloadObj k) = None"
  shows "\<exists>c s'. paths_loop env zp swift_paths contents s = (Inr c, s') \<and> swift s' = swift s
           \<and> fst ` set (local_zips s') = fst ` set (local_zips s)"
proof (induction swift_paths arbitrary: contents s)
  case Nil
  then show ?case by simp
next
  case (Cons swift_path swift_paths)
  obtain l_ls s2 where l:
    "(case ls env swift_path s of
        (Inl detail, s1) \<Rightarrow>
          ([], logf ERROR (''Listing of swift storage files in '' @ swift_path
                             @ '' failed, detail: '' @ detail) s1)
      | (Inr l, s1) \<Rightarrow> (l, s1)) = (l_ls, s2)"
    by (cases "(case ls env swift_path s of
        (Inl detail, s1) \<Rightarrow>
          ([], logf ERROR (''Listing of swift storage files in '' @ swift_path
                             @ '' failed, detail: '' @ detail) s1)
      | (Inr l, s1) \<Rightarrow> (l, s1))")
  then have s2: "swift s2 = swift s" "local_zips s2 = local_zips s"
    and sub: "set l_ls \<subseteq> fst ` set (swift s2)"
    by (auto simp: ls_def swift_call_def logf_def Let_def split: option.splits)
  from objs_loop_completes[OF assms sub, of zp contents] obtain c s3 where
    o: "objs_loop env zp l_ls contents s2 = (Inr c, s3)" and
    s3: "swift s3 = swift s2" "fst ` set (local_zips s3) = fst ` set (local_zips s2)"
    by blast
  from Cons.IH[of c s3] obtain c' s' where
    p: "paths_loop env zp swift_paths c s3 = (Inr c', s')" and
    s': "swift s' = swift s3" "fst ` set (local_zips s') = fst ` set (local_zips s3)"
    by blast
  have "paths_loop env zp (swift_path # swift_paths) contents s = (Inr c', s')"
    using l o p by simp
  then show ?case using s2 s3 s' by simp
qed

lemma put_obj_key: "k \<in> fst ` set (put_obj k v objs)"
  by (force simp: put_obj_def image_iff)

text \<open>
  Claim C9, as amended. When the data directory exists or can be created and no download
  fails, \<^verbatim>\<open>create_zip_file\<close> completes for every list of prefixes, whatever listings
  fail; its value is \<^verbatim>\<open>None\<close>, and the archive is on the local disk at
  \<^verbatim>\<open><data_dir>/chris-jid-<id>.zip\<close>.
\<close>

theorem create_zip_file_completes:
  assumes dir: "data_dir env \<in> set (local_dirs s) \<or> makedirs_fails env = None"
    and dl: "\<forall>k. swift_fails env (DownloadObj k) = None"
  shows "fst (create_zip_file env swift_paths s) = Inr JNull
         \<and> path_join (data_dir env) (''chris-jid-'' @ str_int (inst_id (c_plugin_inst s)) @ ''.zip'')
             \<in> fst ` set (local_zips (snd (create_zip_file env swift_paths s)))"
proof -
  define s1 where "s1 = (if data_dir env \<in> set (local_dirs s) then s
                         else s\<lparr>local_dirs := local_dirs s @ [data_dir env]\<rparr>)"
  define zp where "zp = zipfile_path env (c_plugin_inst s)"
  have in1: "data_dir env \<in> set (local_dirs s1)"
    by (simp add: s1_def)
  have inst1: "c_plugin_inst s1 = c_plugin_inst s" and zips1: "local_zips s1 = local_zips s"
    by (simp_all add: s1_def)
  from paths_loop_completes[OF dl, of zp swift_paths None
         "s1\<lparr>local_zips := put_obj zp [] (local_zips s1)\<rparr>"]
  obtain c s' where
    p: "paths_loop env zp swift_paths None (s1\<lparr>local_zips := put_obj zp [] (local_zips s1)\<rparr>)
          = (Inr c, s')" and
    z: "fst ` set (local_zips s') = fst ` set (put_obj zp [] (local_zips s1))"
    by auto
  have "create_zip_file env swift_paths s = (Inr JNull, s')"
  proof (cases "data_dir env \<in> set (local_dirs s)")
    case True
    then show ?thesis
      using p by (simp add: create_zip_file_def s1_def zp_def Let_def)
  next
    case False
    with dir have "makedirs_fails env = None" by simp
    then show ?thesis
      using False p by (simp add: create_zip_file_def s1_def zp_def Let_def)
  qed
  moreover have "zp \<in> fst ` set (local_zips s')"
    using z put_obj_key[of zp "[]" "local_zips s1"] by simp
  ultimately show ?thesis
    by (simp add: zp_def zipfile_path_def str_job_id_def)
qed

theorem create_zip_file_completes_witness:
  "fst (create_zip_file (env_failing (Ls ''b/'')) [''a/'', ''b/''] s_objs) = Inr JNull
   \<and> ''/root/data/chris-jid-42.zip''
        \<in> fst ` set (local_zips (snd (create_zip_file (env_failing (Ls ''b/'')) [''a/'', ''b/''] s_objs)))"
proof -
  have h1: "data_dir (env_failing (Ls ''b/'')) \<in> set (local_dirs s_objs)
            \<or> makedirs_fails (env_failing (Ls ''b/'')) = None"
    by (simp add: env_failing_def env_of_def)
  have h2: "\<forall>k. swift_fails (env_failing (Ls ''b/'')) (DownloadObj k) = None"
    by (simp add: env_failing_def env_of_def)
  have p: "path_join (data_dir (env_failing (Ls ''b/'')))
             (''chris-jid-'' @ str_int (inst_id (c_plugin_inst s_objs)) @ ''.zip'')
           = ''/root/data/chris-jid-42.zip''"
    by (simp add: data_dir_def path_join_def env_failing_def env_of_def s_objs_def s0_def
                  inst0_def str_int_def str_nat.simps)
  from create_zip_file_completes[OF h1 h2, of "[''a/'', ''b/'']"]
  show ?thesis unfolding p by simp
qed

text \<open>Claim C9, as stated: the value of \<^verbatim>\<open>create_zip_file\<close> is not the path of the
  archive, also when nothing fails.\<close>

theorem create_zip_file_returns_none:
  "fst (create_zip_file (env_of JNull 0) [''a/'', ''b/''] s_objs)
     \<noteq> Inr (JStr (zipfile_path (env_of JNull 0) (c_plugin_inst s_objs)))"
  by (simp add: zip_defs env_of_def s_objs_def s0_def inst0_def Let_def)

section \<open>The input location of a job\<close>

subsection \<open>The \<^verbatim>\<open>path\<close> parameters\<close>

lemma apply_param_paths:
  "fst (snd (apply_param p n v (a, ps, us))) =
     (if db_action p = ''store'' \<and> db_type p = ''path'' then ps @ [n] else ps)"
  by (simp add: apply_param_def Let_def)

lemma match_param_paths:
  "fst (snd (match_param db n v (a, ps, us))) =
     (if stored_path_param db n then ps @ [n] else ps)"
proof (induction db)
  case Nil
  then show ?case by (simp add: stored_path_param_def)
next
  case (Cons p db)
  show ?case
  proof (cases "db_name p = n")
    case True
    then show ?thesis by (simp add: apply_param_paths stored_path_param_def)
  next
    case False
    with Cons.IH show ?thesis by (simp add: stored_path_param_def)
  qed
qed

text \<open>The names that the loop collects are the submitted names that
  \<open>stored_path_param\<close> accepts, in the order of the dict.\<close>

lemma params_loop_paths:
  "fst (snd (params_loop db params (a, ps, us))) =
     ps @ filter (stored_path_param db) (map fst params)"
proof (induction params arbitrary: a ps us)
  case Nil
  then show ?case by simp
next
  case (Cons kv params)
  obtain n v where kv: "kv = (n, v)" by (cases kv)
  obtain a' ps' us' where m: "match_param db n v (a, ps, us) = (a', ps', us')"
    by (cases "match_param db n v (a, ps, us)")
  from match_param_paths[of db n v a ps us] m
  have ps': "ps' = (if stored_path_param db n then ps @ [n] else ps)" by simp
  show ?case using Cons.IH[of a' ps' us'] kv m ps' by simp
qed

lemma stored_path_param_spec:
  "stored_path_param db n \<Longrightarrow> spec_is_path_param db n"
  by (simp add: stored_path_param_def spec_is_path_param_def split: option.splits)

lemma filter_fst: "filter P (map fst kvs) = map fst (filter (\<lambda>kv. P (fst kv)) kvs)"
  by (induction kvs) simp_all

subsection \<open>What a submission does to the collaborators\<close>

lemma sent_msgs_append [simp]: "sent_msgs (xs @ ys) = sent_msgs xs @ sent_msgs ys"
  by (induction xs rule: sent_msgs.induct) simp_all

lemma swift_calls_append [simp]: "swift_calls (xs @ ys) = swift_calls xs @ swift_calls ys"
  by (induction xs rule: swift_calls.induct) simp_all

lemma call_app_service_sent:
  assumes "call_app_service env m s = (r, s')"
  shows "sent_msgs (journal s') = sent_msgs (journal s) @ [m]"
    and "swift_calls (journal s') = swift_calls (journal s)"
    and "swift s' = swift s"
  using assms
  by (auto simp: call_app_service_def Let_def logf_def split: sum.splits if_splits)

lemma coordinate_msg_source:
  "getpath (coordinate_msg inst str_inputdir str_outputdir str_cmd)
     [''meta-data'', ''localSource'', ''path''] = Inr (JStr str_inputdir)"
  by (simp add: coordinate_msg_def Let_def)

lemma submit_app_effect:
  "source_paths (journal (snd (submit_app env app_args str_inputdir s)))
     = source_paths (journal s) @ [Inr (JStr str_inputdir)]"
  "swift_calls (journal (snd (submit_app env app_args str_inputdir s))) = swift_calls (journal s)"
  "swift (snd (submit_app env app_args str_inputdir s)) = swift s"
proof -
  let ?s1 = "logf INFO (''cmd = '' @ path_join (selfpath (plugin (c_plugin_inst s)))
                                       (selfexec (plugin (c_plugin_inst s)))
                          @ '' '' @ join '' '' (map py_str app_args)) s"
  let ?m = "coordinate_msg (c_plugin_inst s) str_inputdir
              (get_output_path env (inst_id (c_plugin_inst s)))
              (path_join (selfpath (plugin (c_plugin_inst s))) (selfexec (plugin (c_plugin_inst s)))
                 @ '' '' @ join '' '' (map py_str app_args))"
  obtain r s2 where c: "call_app_service env ?m ?s1 = (r, s2)"
    by (cases "call_app_service env ?m ?s1")
  have res: "snd (submit_app env app_args str_inputdir s) = s2"
    using c by (cases r) (simp_all add: submit_app_def Let_def)
  note e = call_app_service_sent[OF c]
  show "source_paths (journal (snd (submit_app env app_args str_inputdir s)))
          = source_paths (journal s) @ [Inr (JStr str_inputdir)]"
    using e(1) by (simp add: res source_paths_def logf_def coordinate_msg_source del: getpath.simps)
  show "swift_calls (journal (snd (submit_app env app_args str_inputdir s)))
          = swift_calls (journal s)"
    using e(2) by (simp add: res logf_def)
  show "swift (snd (submit_app env app_args str_inputdir s)) = swift s"
    using e(3) by (simp add: res logf_def)
qed

text \<open>
  Claim C5. For a job with a previous job, \<^verbatim>\<open>run_plugin_instance_app\<close> sends one message,
  whose input location is the output path of the previous job, whatever the submitted
  parameter values and the declared parameters are; it calls the storage client not at
  all and leaves the container as it was, so neither the existence check nor the squash
  is applied.
\<close>

theorem previous_output_is_input:
  assumes "previous (c_plugin_inst s) = Some prev"
  shows "source_paths (journal (snd (run_plugin_instance_app env parameter_dict s)))
           = source_paths (journal s) @ [Inr (JStr (get_output_path env prev))]
         \<and> swift_calls (journal (snd (run_plugin_instance_app env parameter_dict s)))
           = swift_calls (journal s)
         \<and> swift (snd (run_plugin_instance_app env parameter_dict s)) = swift s"
proof -
  obtain app_args path_param_names unextpath_param_names where
    l: "params_loop (parameters (plugin (c_plugin_inst s))) parameter_dict
          (initial_app_args (plugin (c_plugin_inst s)), [], [])
        = (app_args, path_param_names, unextpath_param_names)"
    by (cases "params_loop (parameters (plugin (c_plugin_inst s))) parameter_dict
                 (initial_app_args (plugin (c_plugin_inst s)), [], [])")
  have "run_plugin_instance_app env parameter_dict s
          = submit_app env app_args (get_output_path env prev) s"
    using assms l by (simp add: run_plugin_instance_app_def Let_def)
  then show ?thesis by (simp add: submit_app_effect)
qed

theorem previous_output_is_input_witness:
  "source_paths (journal (snd (run_plugin_instance_app (env_of (JDict []) 0)
       [(''dir'', JStr ''foo/uploads'')] (s0\<lparr>c_plugin_inst := inst0\<lparr>previous := Some 41\<rparr>\<rparr>))))
     = [Inr (JStr ''foo/feed_1/pl_41/data'')]
   \<and> swift_calls (journal (snd (run_plugin_instance_app (env_of (JDict []) 0)
       [(''dir'', JStr ''foo/uploads'')] (s0\<lparr>c_plugin_inst := inst0\<lparr>previous := Some 41\<rparr>\<rparr>))))
     = []"
proof -
  have h: "previous (c_plugin_inst (s0\<lparr>c_plugin_inst := inst0\<lparr>previous := Some 41\<rparr>\<rparr>)) = Some 41"
    by simp
  have p: "get_output_path (env_of (JDict []) 0) 41 = ''foo/feed_1/pl_41/data''"
    by (simp add: env_of_def str_int_def str_nat.simps)
  from previous_output_is_input[OF h, of "env_of (JDict []) 0" "[(''dir'', JStr ''foo/uploads'')]"]
  show ?thesis unfolding p by (simp add: s0_def source_paths_def)
qed

subsection \<open>The input location of a root job\<close>

text \<open>A job without a previous job reads \<^verbatim>\<open>path_param_names\<close> after the loop.\<close>

lemma root_run:
  assumes root: "previous (c_plugin_inst s) = None"
  shows "run_plugin_instance_app env parameter_dict s =
     (case last_path_param parameter_dict
             (fst (snd (params_loop (parameters (plugin (c_plugin_inst s))) parameter_dict
                          (initial_app_args (plugin (c_plugin_inst s)), [], [])))) of
        Inl e \<Rightarrow> (Inl e, s)
      | Inr inputdir \<Rightarrow>
          (case manage_app_service_fsplugin_inputdir env inputdir s of
             (Inl e, s1) \<Rightarrow> (Inl e, s1)
           | (Inr str_inputdir, s1) \<Rightarrow>
               submit_app env
                 (fst (params_loop (parameters (plugin (c_plugin_inst s))) parameter_dict
                         (initial_app_args (plugin (c_plugin_inst s)), [], [])))
                 str_inputdir s1))"
  using root by (simp add: run_plugin_instance_app_def Let_def split_beta)

text \<open>The subscript \<^verbatim>\<open>parameter_dict[path_param_names[-1]]\<close> finds the value that was
  submitted under the last collected name.\<close>

lemma last_path_param_value:
  assumes dict: "distinct (map fst parameter_dict)"
  shows "last_path_param parameter_dict
           (filter (stored_path_param db_parameters) (map fst parameter_dict))
         = Inr (last_submitted_path_value db_parameters parameter_dict)"
proof -
  define sel where
    "sel = filter (\<lambda>kv. stored_path_param db_parameters (fst kv)) parameter_dict"
  have names: "filter (stored_path_param db_parameters) (map fst parameter_dict) = map fst sel"
    by (simp add: filter_fst sel_def)
  have "last_path_param parameter_dict (map fst sel)
          = Inr (last_submitted_path_value db_parameters parameter_dict)"
  proof (cases sel)
    case Nil
    then show ?thesis
      by (simp add: last_path_param_def last_submitted_path_value_def sel_def[symmetric])
  next
    case (Cons kv kvs)
    then have ne: "sel \<noteq> []" by simp
    then have "last sel \<in> set sel" by simp
    then have mem: "last sel \<in> set parameter_dict" by (simp add: sel_def)
    obtain k v where kv: "last sel = (k, v)" by (cases "last sel")
    from mem kv dict have look: "map_of parameter_dict k = Some v"
      by (simp add: map_of_is_SomeI)
    have "last (map fst sel) = k" using ne kv by (simp add: last_map)
    then have "last_path_param parameter_dict (map fst sel) = Inr v"
      using ne look by (simp add: last_path_param_def)
    moreover have "last_submitted_path_value db_parameters parameter_dict = v"
      using Cons kv by (simp add: last_submitted_path_value_def sel_def[symmetric])
    ultimately show ?thesis by simp
  qed
  then show ?thesis by (simp only: names)
qed

text \<open>The two root jobs with \<^verbatim>\<open>path\<close> parameters, evaluated.\<close>

lemma two_paths_loop:
  "fst (snd (params_loop (parameters (plugin (c_plugin_inst s_two_paths)))
               [(''b'', JStr ''b/''), (''a'', JStr ''a/'')]
               (initial_app_args (plugin (c_plugin_inst s_two_paths)), [], [])))
     = [''b'', ''a'']"
  by (simp add: s_two_paths_def apply_param_def Let_def)

lemma two_paths_resolution:
  "manage_app_service_fsplugin_inputdir (env_of (JDict []) 0) (JStr ''a/'') s_two_paths
     = (Inr ''a/'', s_two_paths\<lparr>journal := [Swift (PathExists ''a/'')]\<rparr>)"
  by (simp add: manage_app_service_fsplugin_inputdir_def path_exists_def swift_call_def
      strip_def lstrip_def isspace_def env_of_def s_two_paths_def s_objs_def s0_def Let_def)

lemma flag_path_loop:
  "fst (snd (params_loop (parameters (plugin (c_plugin_inst s_flag_path)))
               [(''a'', JStr ''a/'')]
               (initial_app_args (plugin (c_plugin_inst s_flag_path)), [], [])))
     = []"
  by (simp add: s_flag_path_def apply_param_def Let_def)

lemma flag_path_resolution:
  "manage_app_service_fsplugin_inputdir (env_of (JDict []) 0) (JStr []) s_flag_path
     = (Inr ''root/data/squashEmptyDir'',
        s_flag_path\<lparr>swift := swift s_flag_path
                         @ [(''root/data/squashEmptyDir/squashEmptyDir.txt'', ''Empty input dir.'')],
                     journal := [Swift (ObjExists ''root/data/squashEmptyDir/squashEmptyDir.txt''),
                                 Swift (UploadObj ''root/data/squashEmptyDir/squashEmptyDir.txt'')]\<rparr>)"
  by (simp add: manage_app_service_fsplugin_inputdir_def squash_inputdir_def obj_exists_def
      upload_obj_def put_obj_def swift_call_def strip_def lstrip_def data_dir_def path_join_def
      dirname_def rstrip_def env_of_def s_flag_path_def s_objs_def s0_def Let_def)

text \<open>
  Claim C6, as amended. The parameter values are a dict (distinct keys). For a job without
  a previous job, the input location before the squash, which is the value that
  \<^verbatim>\<open>run_plugin_instance_app\<close> hands to \<^verbatim>\<open>manage_app_service_fsplugin_inputdir\<close>, is the
  value of the last submitted parameter, in the order of the submitted values, whose spec
  (the first declared parameter of that name) has the type \<^verbatim>\<open>path\<close> and the action
  \<^verbatim>\<open>store\<close>, and the empty string if no such parameter is submitted. The job is then
  submitted with the resolved location and the arguments that the loop has built.
\<close>

theorem root_job_input_is_last_submitted_path_value:
  assumes root: "previous (c_plugin_inst s) = None"
    and dict: "distinct (map fst parameter_dict)"
  shows "run_plugin_instance_app env parameter_dict s =
     (case manage_app_service_fsplugin_inputdir env
             (last_submitted_path_value (parameters (plugin (c_plugin_inst s))) parameter_dict)
             s of
        (Inl e, s1) \<Rightarrow> (Inl e, s1)
      | (Inr str_inputdir, s1) \<Rightarrow>
          submit_app env
            (fst (params_loop (parameters (plugin (c_plugin_inst s))) parameter_dict
                    (initial_app_args (plugin (c_plugin_inst s)), [], [])))
            str_inputdir s1)"
  by (simp add: root_run[OF root] params_loop_paths last_path_param_value[OF dict])

theorem root_job_input_is_last_submitted_path_value_witness:
  "last_submitted_path_value (parameters (plugin (c_plugin_inst s_two_paths)))
       [(''b'', JStr ''b/''), (''a'', JStr ''a/'')] = JStr ''a/''
   \<and> source_paths (journal (snd (run_plugin_instance_app (env_of (JDict []) 0)
        [(''b'', JStr ''b/''), (''a'', JStr ''a/'')] s_two_paths)))
       = [Inr (JStr ''a/'')]
   \<and> swift_calls (journal (snd (run_plugin_instance_app (env_of (JDict []) 0)
        [(''b'', JStr ''b/''), (''a'', JStr ''a/'')] s_two_paths)))
       = [PathExists ''a/'']"
proof -
  have h1: "previous (c_plugin_inst s_two_paths) = None"
    by (simp add: s_two_paths_def inst0_def)
  have h2: "distinct (map fst [(''b'', JStr ''b/''), (''a'', JStr ''a/'')])"
    by simp
  have v: "last_submitted_path_value (parameters (plugin (c_plugin_inst s_two_paths)))
             [(''b'', JStr ''b/''), (''a'', JStr ''a/'')] = JStr ''a/''"
    by (simp add: last_submitted_path_value_def stored_path_param_def s_two_paths_def)
  have r: "run_plugin_instance_app (env_of (JDict []) 0)
             [(''b'', JStr ''b/''), (''a'', JStr ''a/'')] s_two_paths
           = submit_app (env_of (JDict []) 0)
               (fst (params_loop (parameters (plugin (c_plugin_inst s_two_paths)))
                       [(''b'', JStr ''b/''), (''a'', JStr ''a/'')]
                       (initial_app_args (plugin (c_plugin_inst s_two_paths)), [], [])))
               ''a/'' (s_two_paths\<lparr>journal := [Swift (PathExists ''a/'')]\<rparr>)"
    using root_job_input_is_last_submitted_path_value[OF h1 h2, of "env_of (JDict []) 0"]
    unfolding v two_paths_resolution by simp
  show ?thesis
    unfolding r by (simp add: v submit_app_effect) (simp add: source_paths_def)
qed

text \<open>Claim C6, as stated. The plugin declares the \<^verbatim>\<open>path\<close> parameters \<^verbatim>\<open>a\<close> and then
  \<^verbatim>\<open>b\<close>, and the values are submitted as \<^verbatim>\<open>{'b': 'b/', 'a': 'a/'}\<close>: the last declared
  one is \<^verbatim>\<open>b\<close>, and the job reads from \<^verbatim>\<open>a/\<close>. And a \<^verbatim>\<open>path\<close>-typed parameter with the
  action \<^verbatim>\<open>store_true\<close> is declared and submitted, and the job reads from the
  placeholder directory of the jobs without input.\<close>

theorem last_declared_path_value_not_used:
  "previous (c_plugin_inst s_two_paths) = None
   \<and> spec_last_declared_path_value (parameters (plugin (c_plugin_inst s_two_paths)))
        [(''b'', JStr ''b/''), (''a'', JStr ''a/'')] = JStr ''b/''
   \<and> source_paths (journal (snd (run_plugin_instance_app (env_of (JDict []) 0)
        [(''b'', JStr ''b/''), (''a'', JStr ''a/'')] s_two_paths)))
       = [Inr (JStr ''a/'')]
   \<and> previous (c_plugin_inst s_flag_path) = None
   \<and> spec_last_declared_path_value (parameters (plugin (c_plugin_inst s_flag_path)))
        [(''a'', JStr ''a/'')] = JStr ''a/''
   \<and> source_paths (journal (snd (run_plugin_instance_app (env_of (JDict []) 0)
        [(''a'', JStr ''a/'')] s_flag_path)))
       = [Inr (JStr ''root/data/squashEmptyDir'')]"
proof -
  have c1: "previous (c_plugin_inst s_two_paths) = None"
    by (simp add: s_two_paths_def inst0_def)
  have c2: "spec_last_declared_path_value (parameters (plugin (c_plugin_inst s_two_paths)))
              [(''b'', JStr ''b/''), (''a'', JStr ''a/'')] = JStr ''b/''"
    by (simp add: spec_last_declared_path_value_def s_two_paths_def)
  have c3: "source_paths (journal (snd (run_plugin_instance_app (env_of (JDict []) 0)
              [(''b'', JStr ''b/''), (''a'', JStr ''a/'')] s_two_paths)))
            = [Inr (JStr ''a/'')]"
    unfolding root_run[OF c1] two_paths_loop
    by (simp add: last_path_param_def two_paths_resolution submit_app_effect)
       (simp add: source_paths_def)
  have c4: "previous (c_plugin_inst s_flag_path) = None"
    by (simp add: s_flag_path_def inst0_def)
  have c5: "spec_last_declared_path_value (parameters (plugin (c_plugin_inst s_flag_path)))
              [(''a'', JStr ''a/'')] = JStr ''a/''"
    by (simp add: spec_last_declared_path_value_def s_flag_path_def)
  have c6: "source_paths (journal (snd (run_plugin_instance_app (env_of (JDict []) 0)
              [(''a'', JStr ''a/'')] s_flag_path)))
            = [Inr (JStr ''root/data/squashEmptyDir'')]"
    unfolding root_run[OF c4] flag_path_loop
    by (simp add: last_path_param_def flag_path_resolution submit_app_effect)
       (simp add: source_paths_def)
  from c1 c2 c3 c4 c5 c6 show ?thesis by (intro conjI)
qed

subsection \<open>The squash\<close>

lemma lstrip_append:
  "ys \<noteq> [] \<Longrightarrow> hd ys \<noteq> c \<Longrightarrow> lstrip c (xs @ ys) = lstrip c xs @ ys"
  by (induction xs) (auto simp: lstrip_def neq_Nil_conv)

lemma dropWhile_all: "\<forall>x \<in> set xs. P x \<Longrightarrow> dropWhile P (xs @ ys) = dropWhile P ys"
  by (induction xs) simp_all

lemma in_replicate_eq:
  assumes "xs = replicate n c" and "x \<in> set xs"
  shows "x = c"
  using assms by auto

lemma dropWhile_hd: "xs \<noteq> [] \<Longrightarrow> \<not> P (hd xs) \<Longrightarrow> dropWhile P xs = xs"
  by (cases xs) simp_all

text \<open>\<^verbatim>\<open>dirname\<close> of a file name under a directory that does not end with a slash.\<close>

lemma dirname_file:
  assumes b: "CHR ''/'' \<notin> set b" and a: "a \<noteq> []" and l: "last a \<noteq> CHR ''/''"
  shows "dirname (a @ CHR ''/'' # b) = a"
proof -
  have "dropWhile (\<lambda>c. c \<noteq> CHR ''/'') (rev b @ CHR ''/'' # rev a) = CHR ''/'' # rev a"
    using b by (subst dropWhile_all) auto
  then have h: "rev (dropWhile (\<lambda>c. c \<noteq> CHR ''/'') (rev (a @ CHR ''/'' # b))) = a @ ''/''"
    by simp
  have la: "last a \<in> set a" using a by simp
  have ns: "a @ ''/'' \<noteq> replicate (length (a @ ''/'')) CHR ''/''"
  proof
    assume e: "a @ ''/'' = replicate (length (a @ ''/'')) CHR ''/''"
    have "last a \<in> set (a @ ''/'')" using la by simp
    from in_replicate_eq[OF e this] show False using l by simp
  qed
  have hd: "hd (rev a) = last a" using a by (simp add: hd_rev)
  have "dropWhile (\<lambda>x. x = CHR ''/'') (rev a) = rev a"
    using a hd l by (intro dropWhile_hd) simp_all
  then have r: "rstrip CHR ''/'' (a @ ''/'') = a"
    by (simp add: rstrip_def)
  show ?thesis
    unfolding dirname_def h Let_def using ns r a by simp
qed

lemma data_dir_ends_with_data: "\<exists>x. data_dir env = x @ ''data''"
  by (simp add: data_dir_def path_join_def)

text \<open>The squash file of a job without input is \<^verbatim>\<open>squashEmptyDir.txt\<close> in the placeholder
  directory, wherever the home directory is.\<close>

lemma squash_empty_file_in_dir:
  "squash_empty_dir env @ ''/squashEmptyDir.txt'' = squash_empty_file env"
proof -
  obtain x where x: "data_dir env = x @ ''data''"
    using data_dir_ends_with_data by blast
  have "path_join (x @ ''data'') ''squashEmptyDir/squashEmptyDir.txt''
          = x @ ''data/squashEmptyDir/squashEmptyDir.txt''"
    by (simp add: path_join_def)
  then have f: "squash_empty_file env
          = lstrip CHR ''/'' x @ ''data/squashEmptyDir/squashEmptyDir.txt''"
    using lstrip_append[of "''data/squashEmptyDir/squashEmptyDir.txt''" "CHR ''/''" x]
    by (simp add: squash_empty_file_def x)
  have "dirname ((lstrip CHR ''/'' x @ ''data/squashEmptyDir'') @ CHR ''/'' # ''squashEmptyDir.txt'')
          = lstrip CHR ''/'' x @ ''data/squashEmptyDir''"
    by (rule dirname_file) simp_all
  then have "squash_empty_dir env = lstrip CHR ''/'' x @ ''data/squashEmptyDir''"
    by (simp add: squash_empty_dir_def f)
  then show ?thesis by (simp add: f)
qed

lemma strip_Nil: "lstrip c (strip []) = []"
  by (simp add: strip_def lstrip_def)

lemma map_of_put_obj_new:
  "k \<notin> fst ` set objs \<Longrightarrow> map_of (put_obj k v objs) k = Some v"
  by (simp add: put_obj_def map_add_Some_iff map_of_eq_None_iff)

lemma map_of_present: "k \<in> fst ` set objs \<Longrightarrow> \<exists>v. map_of objs k = Some v"
  by (cases "map_of objs k") (simp_all add: map_of_eq_None_iff)

text \<open>The method on the empty input location when no storage call fails.\<close>

lemma manage_empty_inputdir:
  assumes "\<forall>op. swift_fails env op = None"
  shows "fst (manage_app_service_fsplugin_inputdir env (JStr []) s)
           = Inr (squash_empty_dir env)"
    and "swift (snd (manage_app_service_fsplugin_inputdir env (JStr []) s))
           = (if squash_empty_file env \<in> fst ` set (swift s) then swift s
              else put_obj (squash_empty_file env) ''Empty input dir.'' (swift s))"
    and "source_paths (journal (snd (manage_app_service_fsplugin_inputdir env (JStr []) s)))
           = source_paths (journal s)"
  using assms unfolding squash_empty_dir_def squash_empty_file_def
  by (simp_all add: manage_app_service_fsplugin_inputdir_def squash_inputdir_def strip_Nil
        obj_exists_def upload_obj_def swift_call_def Let_def source_paths_def)

lemma squash_then_submit:
  assumes mm: "manage_app_service_fsplugin_inputdir env (JStr []) s = (Inr d, s1)"
  shows "(case last_path_param parameter_dict [] of
            Inl e \<Rightarrow> (Inl e, s)
          | Inr inputdir \<Rightarrow>
              (case manage_app_service_fsplugin_inputdir env inputdir s of
                 (Inl e, s1) \<Rightarrow> (Inl e, s1)
               | (Inr str_inputdir, s1) \<Rightarrow> submit_app env app_args str_inputdir s1))
         = submit_app env app_args d s1"
proof -
  have lp: "last_path_param parameter_dict [] = Inr (JStr [])"
    by (simp add: last_path_param_def)
  show ?thesis unfolding lp by (simp add: mm)
qed

lemma data_dir_root: "data_dir (env_of r t) = ''/root/data''"
  by (simp add: data_dir_def path_join_def env_of_def)

lemma squash_empty_file_root:
  "squash_empty_file (env_of r t) = ''root/data/squashEmptyDir/squashEmptyDir.txt''"
  by (simp add: squash_empty_file_def data_dir_root path_join_def lstrip_def)

lemma squash_empty_dir_root: "squash_empty_dir (env_of r t) = ''root/data/squashEmptyDir''"
  using dirname_file[of "''squashEmptyDir.txt''" "''root/data/squashEmptyDir''"]
  by (simp add: squash_empty_dir_def squash_empty_file_root)

text \<open>
  Claim C7, as amended. A root job for which no submitted parameter is declared with the
  type \<^verbatim>\<open>path\<close>, and no storage call fails: the input location is the squash-empty
  placeholder directory (what \<^verbatim>\<open>manage_app_service_fsplugin_inputdir\<close> returns and what the
  message sent carries), and afterwards there is an object at
  \<^verbatim>\<open><placeholder-dir>/squashEmptyDir.txt\<close>. Its content is \<^verbatim>\<open>Empty input dir.\<close> when there was
  no object under that key before; an object that was there is left as it was.
\<close>

theorem root_job_without_path_is_squashed:
  assumes root: "previous (c_plugin_inst s) = None"
    and nopath: "\<forall>kv \<in> set parameter_dict.
                   \<not> spec_is_path_param (parameters (plugin (c_plugin_inst s))) (fst kv)"
    and ok: "\<forall>op. swift_fails env op = None"
  shows "fst (manage_app_service_fsplugin_inputdir env (JStr []) s) = Inr (squash_empty_dir env)
         \<and> source_paths (journal (snd (run_plugin_instance_app env parameter_dict s)))
             = source_paths (journal s) @ [Inr (JStr (squash_empty_dir env))]
         \<and> map_of (swift (snd (run_plugin_instance_app env parameter_dict s)))
               (squash_empty_dir env @ ''/squashEmptyDir.txt'')
             = (case map_of (swift s) (squash_empty_dir env @ ''/squashEmptyDir.txt'') of
                  None \<Rightarrow> Some ''Empty input dir.''
                | Some old \<Rightarrow> Some old)"
proof -
  let ?db = "parameters (plugin (c_plugin_inst s))"
  let ?m = "manage_app_service_fsplugin_inputdir env (JStr []) s"
  obtain app_args path_param_names unextpath_param_names where
    l: "params_loop ?db parameter_dict (initial_app_args (plugin (c_plugin_inst s)), [], [])
        = (app_args, path_param_names, unextpath_param_names)"
    by (cases "params_loop ?db parameter_dict (initial_app_args (plugin (c_plugin_inst s)), [], [])")
  have "filter (stored_path_param ?db) (map fst parameter_dict) = []"
    using nopath by (auto simp: filter_empty_conv dest: stored_path_param_spec)
  with params_loop_paths[of ?db parameter_dict "initial_app_args (plugin (c_plugin_inst s))" "[]" "[]"] l
  have names: "path_param_names = []" by simp
  note m = manage_empty_inputdir[OF ok, of s]
  obtain r s1 where mm0: "?m = (r, s1)"
    by (cases ?m)
  from m(1) mm0 have mm: "?m = (Inr (squash_empty_dir env), s1)"
    by simp
  have "run_plugin_instance_app env parameter_dict s
          = (case last_path_param parameter_dict [] of
               Inl e \<Rightarrow> (Inl e, s)
             | Inr inputdir \<Rightarrow>
                 (case manage_app_service_fsplugin_inputdir env inputdir s of
                    (Inl e, s1) \<Rightarrow> (Inl e, s1)
                  | (Inr str_inputdir, s1) \<Rightarrow> submit_app env app_args str_inputdir s1))"
    unfolding run_plugin_instance_app_def Let_def l names root by simp
  also have "\<dots> = submit_app env app_args (squash_empty_dir env) s1"
    using mm by (rule squash_then_submit)
  finally have "run_plugin_instance_app env parameter_dict s
          = submit_app env app_args (squash_empty_dir env) s1" .
  then have run: "run_plugin_instance_app env parameter_dict s
               = submit_app env app_args (squash_empty_dir env) (snd ?m)"
    by (simp add: mm)
  have paths: "source_paths (journal (snd (run_plugin_instance_app env parameter_dict s)))
                 = source_paths (journal s) @ [Inr (JStr (squash_empty_dir env))]"
    by (simp add: run submit_app_effect m(3))
  have sw: "swift (snd (run_plugin_instance_app env parameter_dict s))
              = (if squash_empty_file env \<in> fst ` set (swift s) then swift s
                 else put_obj (squash_empty_file env) ''Empty input dir.'' (swift s))"
    unfolding run submit_app_effect(3) by (rule m(2))
  have obj: "map_of (swift (snd (run_plugin_instance_app env parameter_dict s)))
               (squash_empty_file env)
             = (case map_of (swift s) (squash_empty_file env) of
                  None \<Rightarrow> Some ''Empty input dir.''
                | Some old \<Rightarrow> Some old)"
  proof (cases "squash_empty_file env \<in> fst ` set (swift s)")
    case True
    from map_of_present[OF True] obtain v where
      "map_of (swift s) (squash_empty_file env) = Some v"
      by (rule exE)
    then show ?thesis using True by (simp add: sw)
  next
    case False
    then have "map_of (swift s) (squash_empty_file env) = None"
      by (simp add: map_of_eq_None_iff)
    then show ?thesis using False by (simp add: sw map_of_put_obj_new)
  qed
  show ?thesis using m(1) paths obj by (simp add: squash_empty_file_in_dir)
qed



theorem root_job_without_path_is_squashed_witness:
  "source_paths (journal (snd (run_plugin_instance_app (env_of (JDict []) 0)
       [(''prefix'', JStr ''x'')] s0)))
     = [Inr (JStr ''root/data/squashEmptyDir'')]
   \<and> map_of (swift (snd (run_plugin_instance_app (env_of (JDict []) 0)
       [(''prefix'', JStr ''x'')] s0))) ''root/data/squashEmptyDir/squashEmptyDir.txt''
     = Some ''Empty input dir.''"
proof -
  have h1: "previous (c_plugin_inst s0) = None"
    by (simp add: s0_def inst0_def)
  have h2: "\<forall>kv \<in> set [(''prefix'', JStr ''x'')].
              \<not> spec_is_path_param (parameters (plugin (c_plugin_inst s0))) (fst kv)"
    by (simp add: s0_def inst0_def plugin0_def spec_is_path_param_def)
  have h3: "\<forall>op. swift_fails (env_of (JDict []) 0) op = None"
    by (simp add: env_of_def)
  have e: "swift s0 = []" "journal s0 = []"
    by (simp_all add: s0_def)
  from root_job_without_path_is_squashed[OF h1 h2 h3]
  show ?thesis
    unfolding squash_empty_dir_root e by (simp add: source_paths_def)
qed


text \<open>Claim C7, as stated: when the object is in the container already, with another
  content, the resolution of a root job without input leaves that content there.\<close>

theorem squash_file_content_kept:
  "previous (c_plugin_inst s_squashed) = None
   \<and> swift_fails (env_of (JDict []) 0) = (\<lambda>op. None)
   \<and> fst (run_plugin_instance_app (env_of (JDict []) 0) [] s_squashed) = Inr ()
   \<and> squash_empty_dir (env_of (JDict []) 0) @ ''/squashEmptyDir.txt''
       = ''root/data/squashEmptyDir/squashEmptyDir.txt''
   \<and> map_of (swift (snd (run_plugin_instance_app (env_of (JDict []) 0) [] s_squashed)))
        ''root/data/squashEmptyDir/squashEmptyDir.txt'' = Some ''old''"
proof -
  have c1: "previous (c_plugin_inst s_squashed) = None"
    by (simp add: s_squashed_def s0_def inst0_def)
  have c2: "swift_fails (env_of (JDict []) 0) = (\<lambda>op. None)"
    by (simp add: env_of_def)
  have c3: "fst (run_plugin_instance_app (env_of (JDict []) 0) [] s_squashed) = Inr ()
            \<and> map_of (swift (snd (run_plugin_instance_app (env_of (JDict []) 0) [] s_squashed)))
                 ''root/data/squashEmptyDir/squashEmptyDir.txt'' = Some ''old''"
    by (simp add: run_plugin_instance_app_def submit_app_def
          manage_app_service_fsplugin_inputdir_def squash_inputdir_def call_app_service_def
          obj_exists_def upload_obj_def swift_call_def last_path_param_def logf_def
          strip_def lstrip_def data_dir_def path_join_def
          env_of_def s_squashed_def s0_def inst0_def plugin0_def Let_def)
  have c4: "squash_empty_dir (env_of (JDict []) 0) @ ''/squashEmptyDir.txt''
              = ''root/data/squashEmptyDir/squashEmptyDir.txt''"
    by (simp add: squash_empty_dir_root)
  from c1 c2 c3 c4 show ?thesis by (intro conjI) simp_all
qed

lemma data_dir_env_failing: "data_dir (env_failing op) = ''/root/data''"
  by (simp add: data_dir_def path_join_def env_failing_def env_of_def)

text \<open>
  Claim C4, as amended. In the squash branch of \<^verbatim>\<open>manage_app_service_fsplugin_inputdir\<close>
  (the trimmed input location is empty, or the storage client says that it does not
  exist), a \<^verbatim>\<open>ClientException\<close> of the upload of the squash object, or of the check
  whether the object is stored already, is logged and does not leave the method, nothing
  is stored, and the method returns the trimmed input location as it was. When neither
  call fails the method returns the directory portion of the squash file path: without an
  upload when the object is stored already, and after the upload otherwise.
\<close>

theorem squash_upload_failure_is_swallowed:
  assumes str: "str_inputdir = lstrip CHR ''.'' (strip i)"
    and branch: "str_inputdir = []
                 \<or> (swift_fails env (PathExists str_inputdir) = None
                    \<and> \<not> (\<exists>k \<in> fst ` set (swift s). take (length str_inputdir) k = str_inputdir))"
    and sqf: "str_squashFile =
                 lstrip CHR ''/'' (path_join (data_dir env)
                   (if str_inputdir = [] then ''squashEmptyDir/squashEmptyDir.txt''
                    else ''squashInvalidDir/squashInvalidDir.txt''))"
    and msg: "str_squashMsg =
                 (if str_inputdir = [] then ''Empty input dir.''
                  else ''Path specified in object storage does not exist!'')"
    and chk: "checked = (if str_inputdir = [] then [] else [Swift (PathExists str_inputdir)])"
  shows "manage_app_service_fsplugin_inputdir env (JStr i) s =
     (case swift_fails env (ObjExists str_squashFile) of
        Some detail \<Rightarrow>
          (Inr str_inputdir,
           s\<lparr>journal := journal s @ checked @
               [Swift (ObjExists str_squashFile),
                Log ERROR (''Swift storage error, detail: '' @ detail)]\<rparr>)
      | None \<Rightarrow>
          if str_squashFile \<in> fst ` set (swift s) then
            (Inr (dirname str_squashFile),
             s\<lparr>journal := journal s @ checked @ [Swift (ObjExists str_squashFile)]\<rparr>)
          else
            (case swift_fails env (UploadObj str_squashFile) of
               Some detail \<Rightarrow>
                 (Inr str_inputdir,
                  s\<lparr>journal := journal s @ checked @
                      [Swift (ObjExists str_squashFile), Swift (UploadObj str_squashFile),
                       Log ERROR (''Swift storage error, detail: '' @ detail)]\<rparr>)
             | None \<Rightarrow>
                 (Inr (dirname str_squashFile),
                  s\<lparr>swift := put_obj str_squashFile str_squashMsg (swift s),
                    journal := journal s @ checked @
                      [Swift (ObjExists str_squashFile), Swift (UploadObj str_squashFile)]\<rparr>)))"
proof (cases "str_inputdir = []")
  case True
  then show ?thesis
    using str sqf msg chk
    by (simp add: manage_app_service_fsplugin_inputdir_def squash_inputdir_def obj_exists_def
          upload_obj_def swift_call_def logf_def Let_def split: option.splits)
next
  case False
  with branch have pe: "swift_fails env (PathExists str_inputdir) = None"
    and ne: "\<not> (\<exists>k \<in> fst ` set (swift s). take (length str_inputdir) k = str_inputdir)"
    by simp_all
  show ?thesis
    using False str[symmetric] sqf msg chk pe ne
    by (simp add: manage_app_service_fsplugin_inputdir_def squash_inputdir_def path_exists_def
          obj_exists_def upload_obj_def swift_call_def logf_def Let_def split: option.splits)
qed

theorem squash_upload_failure_is_swallowed_witness:
  "manage_app_service_fsplugin_inputdir
       (env_failing (UploadObj ''root/data/squashInvalidDir/squashInvalidDir.txt''))
       (JStr ''./foo'') s0
     = (Inr ''/foo'',
        s0\<lparr>journal := journal s0 @ [Swift (PathExists ''/foo'')] @
             [Swift (ObjExists ''root/data/squashInvalidDir/squashInvalidDir.txt''),
              Swift (UploadObj ''root/data/squashInvalidDir/squashInvalidDir.txt''),
              Log ERROR ''Swift storage error, detail: boom'']\<rparr>)
   \<and> manage_app_service_fsplugin_inputdir (env_of (JDict []) 0) (JStr []) s_squashed
     = (Inr (dirname ''root/data/squashEmptyDir/squashEmptyDir.txt''),
        s_squashed\<lparr>journal := journal s_squashed @ [] @
             [Swift (ObjExists ''root/data/squashEmptyDir/squashEmptyDir.txt'')]\<rparr>)"
proof -
  let ?env = "env_failing (UploadObj ''root/data/squashInvalidDir/squashInvalidDir.txt'')"
  have h1: "''/foo'' = lstrip CHR ''.'' (strip ''./foo'')"
    by (simp add: strip_def lstrip_def isspace_def)
  have h2: "''/foo'' = []
            \<or> (swift_fails ?env (PathExists ''/foo'') = None
               \<and> \<not> (\<exists>k \<in> fst ` set (swift s0). take (length ''/foo'') k = ''/foo''))"
    by (simp add: env_failing_def env_of_def s0_def)
  have h3: "''root/data/squashInvalidDir/squashInvalidDir.txt'' =
              lstrip CHR ''/'' (path_join (data_dir ?env)
                (if ''/foo'' = [] then ''squashEmptyDir/squashEmptyDir.txt''
                 else ''squashInvalidDir/squashInvalidDir.txt''))"
    by (simp add: data_dir_env_failing path_join_def lstrip_def)
  have h4: "''Path specified in object storage does not exist!'' =
              (if ''/foo'' = [] then ''Empty input dir.''
               else ''Path specified in object storage does not exist!'')"
    by simp
  have h5: "[Swift (PathExists ''/foo'')] =
              (if ''/foo'' = [] then [] else [Swift (PathExists ''/foo'')])"
    by simp
  have f1: "swift_fails ?env (ObjExists ''root/data/squashInvalidDir/squashInvalidDir.txt'')
              = None"
    by (simp add: env_failing_def env_of_def)
  have f2: "swift_fails ?env (UploadObj ''root/data/squashInvalidDir/squashInvalidDir.txt'')
              = Some ''boom''"
    by (simp add: env_failing_def env_of_def)
  have f3: "''root/data/squashInvalidDir/squashInvalidDir.txt'' \<notin> fst ` set (swift s0)"
    by (simp add: s0_def)
  have a: "manage_app_service_fsplugin_inputdir ?env (JStr ''./foo'') s0
     = (Inr ''/foo'',
        s0\<lparr>journal := journal s0 @ [Swift (PathExists ''/foo'')] @
             [Swift (ObjExists ''root/data/squashInvalidDir/squashInvalidDir.txt''),
              Swift (UploadObj ''root/data/squashInvalidDir/squashInvalidDir.txt''),
              Log ERROR ''Swift storage error, detail: boom'']\<rparr>)"
    using squash_upload_failure_is_swallowed[OF h1 h2 h3 h4 h5] f3
    by (simp add: f1 f2)
  have g1: "[] = lstrip CHR ''.'' (strip [])"
    by (simp add: strip_def lstrip_def)
  have g2: "([]::string) = []
            \<or> (swift_fails (env_of (JDict []) 0) (PathExists []) = None
               \<and> \<not> (\<exists>k \<in> fst ` set (swift s_squashed). take (length ([]::string)) k = []))"
    by simp
  have g3: "''root/data/squashEmptyDir/squashEmptyDir.txt'' =
              lstrip CHR ''/'' (path_join (data_dir (env_of (JDict []) 0))
                (if ([]::string) = [] then ''squashEmptyDir/squashEmptyDir.txt''
                 else ''squashInvalidDir/squashInvalidDir.txt''))"
    by (simp add: data_dir_def path_join_def lstrip_def env_of_def)
  have g4: "''Empty input dir.'' =
              (if ([]::string) = [] then ''Empty input dir.''
               else ''Path specified in object storage does not exist!'')"
    by simp
  have g5: "[] = (if ([]::string) = [] then [] else [Swift (PathExists [])])"
    by simp
  have k1: "swift_fails (env_of (JDict []) 0)
              (ObjExists ''root/data/squashEmptyDir/squashEmptyDir.txt'') = None"
    by (simp add: env_of_def)
  have k2: "''root/data/squashEmptyDir/squashEmptyDir.txt'' \<in> fst ` set (swift s_squashed)"
    by (simp add: s_squashed_def)
  have b: "manage_app_service_fsplugin_inputdir (env_of (JDict []) 0) (JStr []) s_squashed
     = (Inr (dirname ''root/data/squashEmptyDir/squashEmptyDir.txt''),
        s_squashed\<lparr>journal := journal s_squashed @ [] @
             [Swift (ObjExists ''root/data/squashEmptyDir/squashEmptyDir.txt'')]\<rparr>)"
    using squash_upload_failure_is_swallowed[OF g1 g2 g3 g4 g5] k2
    by (simp add: k1)
  from a b show ?thesis by (rule conjI)
qed

text \<open>Claim C4, as stated: in the empty-input branch with a failing upload the method
  returns the empty string, which is not the directory of the squash file.\<close>

theorem squash_upload_failure_returns_input:
  "swift_fails (env_failing (UploadObj ''root/data/squashEmptyDir/squashEmptyDir.txt''))
       (UploadObj ''root/data/squashEmptyDir/squashEmptyDir.txt'') = Some ''boom''
   \<and> Swift (UploadObj ''root/data/squashEmptyDir/squashEmptyDir.txt'')
        \<in> set (journal (snd (manage_app_service_fsplugin_inputdir
             (env_failing (UploadObj ''root/data/squashEmptyDir/squashEmptyDir.txt''))
             (JStr []) s0)))
   \<and> fst (manage_app_service_fsplugin_inputdir
             (env_failing (UploadObj ''root/data/squashEmptyDir/squashEmptyDir.txt''))
             (JStr []) s0) = Inr []
   \<and> dirname ''root/data/squashEmptyDir/squashEmptyDir.txt'' = ''root/data/squashEmptyDir''"
proof -
  let ?env = "env_failing (UploadObj ''root/data/squashEmptyDir/squashEmptyDir.txt'')"
  have c1: "swift_fails ?env (UploadObj ''root/data/squashEmptyDir/squashEmptyDir.txt'')
              = Some ''boom''"
    by (simp add: env_failing_def env_of_def)
  have c2: "Swift (UploadObj ''root/data/squashEmptyDir/squashEmptyDir.txt'')
              \<in> set (journal (snd (manage_app_service_fsplugin_inputdir ?env (JStr []) s0)))
            \<and> fst (manage_app_service_fsplugin_inputdir ?env (JStr []) s0) = Inr []"
    by (simp add: manage_app_service_fsplugin_inputdir_def squash_inputdir_def obj_exists_def
          upload_obj_def swift_call_def logf_def strip_def lstrip_def data_dir_def
          path_join_def env_failing_def env_of_def s0_def Let_def)
  have c3: "dirname ''root/data/squashEmptyDir/squashEmptyDir.txt'' = ''root/data/squashEmptyDir''"
    using dirname_file[of "''squashEmptyDir.txt''" "''root/data/squashEmptyDir''"] by simp
  from c1 c2 c3 show ?thesis by (intro conjI) simp_all
qed

section \<open>The \<^verbatim>\<open>raw\<close> blob can be read back\<close>






lemma split16:
  fixes b c :: nat
  assumes "c < 16"
  shows "(b * 16 + c) div 16 = b" "(b * 16 + c) mod 16 = c"
  using assms by simp_all

lemma split4:
  fixes b c :: nat
  assumes "c < 4"
  shows "(b * 4 + c) div 4 = b" "(b * 4 + c) mod 4 = c"
  using assms by simp_all



















end
